theory Spec2Isabelle
  imports Main "HOL-Library.Word" "HOL-Library.Monad_Syntax" "HOL-Library.List_Lexorder"
    "HOL-Library.Char_ord"
begin

unbundle bit_operations_syntax

section \<open>XrdCl message utilities and the XRootD message handler\<close>

text \<open>
  A shallow embedding of \<^verbatim>\<open>MessageUtils\<close> (\<^verbatim>\<open>SendMessage\<close>, \<^verbatim>\<open>RewriteCGIAndPath\<close>,
  \<^verbatim>\<open>MergeCGI\<close>, \<^verbatim>\<open>CreateXAttrVec\<close>) and of the inline part of
  \<^verbatim>\<open>XrdClXRootDMsgHandler.hh\<close> (\<^verbatim>\<open>MsgHandlerRef\<close>, the constructor, the destructor and
  the setters of \<^verbatim>\<open>XRootDMsgHandler\<close>).
\<close>

type_synonym u8 = "8 word"
type_synonym u16 = "16 word"
type_synonym u32 = "32 word"

subsection \<open>CGI parameter maps\<close>

text \<open>
  \<^verbatim>\<open>URL::ParamsMap\<close> is a \<^verbatim>\<open>std::map<std::string, std::string>\<close>. It is kept as the
  list of its entries in iteration order, which is the order of the keys (strings are
  compared byte by byte, a prefix before its extensions); a key occurs once in a
  \<^verbatim>\<open>std::map\<close>. \<^verbatim>\<open>find\<close> is \<^const>\<open>map_of\<close>.
\<close>

type_synonym ParamsMap = "(string \<times> string) list"

text \<open>
  \<^verbatim>\<open>m[k] = v\<close>: the value of an entry that is there is replaced, a new entry goes to its
  place in the order of the keys.
\<close>

fun assign :: "string \<Rightarrow> string \<Rightarrow> ParamsMap \<Rightarrow> ParamsMap" where
  "assign k v [] = [(k, v)]"
| "assign k v (e # m) =
     (if k = fst e then (k, v) # m
      else if k < fst e then (k, v) # e # m
      else e # assign k v m)"

text \<open>The body of the loop of \<^verbatim>\<open>MergeCGI\<close>, for the entry \<open>it\<close> of \<open>cgi2\<close>.\<close>

definition MergeCGI_entry :: "bool \<Rightarrow> ParamsMap \<Rightarrow> string \<times> string \<Rightarrow> ParamsMap" where
  "MergeCGI_entry replace cgi1 it =
     (case map_of cgi1 (fst it) of
        None \<Rightarrow> assign (fst it) (snd it) cgi1
      | Some v \<Rightarrow>
          if replace then assign (fst it) (snd it) cgi1
          else if v = [] then assign (fst it) (snd it) cgi1
          else assign (fst it) (v @ [CHR '',''] @ snd it) cgi1)"

definition MergeCGI :: "ParamsMap \<Rightarrow> ParamsMap \<Rightarrow> bool \<Rightarrow> ParamsMap" where
  "MergeCGI cgi1 cgi2 replace = foldl (MergeCGI_entry replace) cgi1 cgi2"

subsection \<open>Status\<close>

text \<open>
  \<^verbatim>\<open>XrdCl::Status\<close> is declared outside the files at hand; only its status word, its
  error code, the default constructor (\<^verbatim>\<open>Status()\<close> is success) and \<^verbatim>\<open>IsOK\<close> are used.
  The numeric values of the codes play no role and stay symbolic.
\<close>

datatype StatusKind = stOK | stError | stFatal

datatype ErrCode = errNone | errUninitialized | errInvalidArgs | errRedirectLimit
  | errOperationExpired | errOther nat

record Status =
  status :: StatusKind
  code :: ErrCode

definition Status_ctor :: "StatusKind \<Rightarrow> ErrCode \<Rightarrow> Status" where
  "Status_ctor st cod = \<lparr>status = st, code = cod\<rparr>"

definition Status_default :: Status where
  "Status_default = Status_ctor stOK errNone"

definition IsOK :: "Status \<Rightarrow> bool" where
  "IsOK st = (status st = stOK)"

subsection \<open>Protocol constants and helpers of XProtocol.hh\<close>

text \<open>
  The request codes, the limits \<^verbatim>\<open>xfaLimits\<close> and the two inserters of
  \<^verbatim>\<open>ClientFattrRequest\<close> are declared in \<^verbatim>\<open>XProtocol/XProtocol.hh\<close>, which is not among
  the files at hand: they are parameters of the model. \<open>NVecInsert name\<close> and
  \<open>VVecInsert value\<close> are the bytes the inserter stores at its cursor; the pointer it returns
  is the cursor advanced by that many bytes.
\<close>

record XProtocol =
  kXR_chmod :: u16
  kXR_mkdir :: u16
  kXR_mv :: u16
  kXR_open :: u16
  kXR_rm :: u16
  kXR_rmdir :: u16
  kXR_stat :: u16
  kXR_truncate :: u16
  kXR_faMaxVars :: nat
  kXR_faMaxNlen :: nat
  kXR_faMaxVlen :: nat
  NVecInsert :: "string \<Rightarrow> string"
  VVecInsert :: "string \<Rightarrow> string"

subsection \<open>Buffers\<close>

text \<open>
  \<^verbatim>\<open>std::vector<char>::resize( n, v )\<close>: the first \<open>n\<close> elements are kept, new ones are
  copies of \<open>v\<close>.
\<close>

definition resize :: "nat \<Rightarrow> 'a \<Rightarrow> 'a list \<Rightarrow> 'a list" where
  "resize n v xs = take n xs @ replicate (n - length xs) v"

text \<open>
  \<^verbatim>\<open>memcpy( buf + p, bs, |bs| )\<close> seen from the vector that owns \<open>buf\<close>: the bytes
  that fall inside the vector are replaced, its size cannot change.
\<close>

definition poke :: "nat \<Rightarrow> 'a list \<Rightarrow> 'a list \<Rightarrow> 'a list" where
  "poke p bs buf = take p buf @ take (length buf - p) bs @ drop (p + length bs) buf"

subsection \<open>CreateXAttrVec\<close>

type_synonym xattr_t = "string \<times> string"

definition xattr_name :: "xattr_t \<Rightarrow> string" where
  "xattr_name a = fst a"

definition xattr_value :: "xattr_t \<Rightarrow> string" where
  "xattr_value a = snd a"

definition name_overhead :: nat where
  "name_overhead = 3"

definition value_overhead :: nat where
  "value_overhead = 4"

text \<open>
  The first loop: the lengths of the name vector and of the value vector. The counters
  are \<^verbatim>\<open>size_t\<close>; the strings are distinct live objects, so their sizes cannot add up to
  \<open>2^64\<close> and the sums are taken in \<^typ>\<open>nat\<close>.
\<close>

fun xattr_lengths :: "xattr_t list \<Rightarrow> nat \<times> nat \<Rightarrow> nat \<times> nat" where
  "xattr_lengths [] (nlen, vlen) = (nlen, vlen)"
| "xattr_lengths (a # as) (nlen, vlen) =
     xattr_lengths as (nlen + (length (xattr_name a) + name_overhead),
                       vlen + (length (xattr_value a) + value_overhead))"

text \<open>The second loop: names from cursor \<open>nvec\<close>, values from cursor \<open>vvec\<close>.\<close>

fun xattr_fill :: "XProtocol \<Rightarrow> xattr_t list \<Rightarrow> nat \<times> nat \<Rightarrow> string \<Rightarrow> string" where
  "xattr_fill xp [] (nvec, vvec) avec = avec"
| "xattr_fill xp (a # as) (nvec, vvec) avec =
     (let nb = NVecInsert xp (xattr_name a);
          vb = VVecInsert xp (xattr_value a)
      in xattr_fill xp as (nvec + length nb, vvec + length vb)
           (poke vvec vb (poke nvec nb avec)))"

definition CreateXAttrVec :: "XProtocol \<Rightarrow> xattr_t list \<Rightarrow> string \<Rightarrow> Status \<times> string" where
  "CreateXAttrVec xp attrs avec =
     (if attrs = [] then (Status_default, avec)
      else if length attrs > kXR_faMaxVars xp then (Status_ctor stError errInvalidArgs, avec)
      else
        (let (nlen, vlen) = xattr_lengths attrs (0, 0) in
         if nlen > kXR_faMaxNlen xp then (Status_ctor stError errInvalidArgs, avec)
         else if vlen > kXR_faMaxVlen xp then (Status_ctor stError errInvalidArgs, avec)
         else (Status_default,
               xattr_fill xp attrs (0, nlen) (resize (nlen + vlen) (CHR 0x00) avec))))"

text \<open>The overload for a vector of names only.\<close>

fun xattr_name_lengths :: "string list \<Rightarrow> nat \<Rightarrow> nat" where
  "xattr_name_lengths [] nlen = nlen"
| "xattr_name_lengths (a # as) nlen = xattr_name_lengths as (nlen + (length a + name_overhead))"

fun xattr_name_fill :: "XProtocol \<Rightarrow> string list \<Rightarrow> nat \<Rightarrow> string \<Rightarrow> string" where
  "xattr_name_fill xp [] nptr nvec = nvec"
| "xattr_name_fill xp (a # as) nptr nvec =
     (let nb = NVecInsert xp a in xattr_name_fill xp as (nptr + length nb) (poke nptr nb nvec))"

definition CreateXAttrNameVec :: "XProtocol \<Rightarrow> string list \<Rightarrow> string \<Rightarrow> Status \<times> string" where
  "CreateXAttrNameVec xp attrs nvec =
     (if attrs = [] then (Status_default, nvec)
      else if length attrs > kXR_faMaxVars xp then (Status_ctor stError errInvalidArgs, nvec)
      else
        (let nlen = xattr_name_lengths attrs 0 in
         if nlen > kXR_faMaxNlen xp then (Status_ctor stError errInvalidArgs, nvec)
         else (Status_default, xattr_name_fill xp attrs 0 (resize nlen (CHR 0x00) nvec))))"

subsection \<open>Messages and URLs\<close>

text \<open>
  A request message: the 24 bytes of \<^verbatim>\<open>ClientRequestHdr\<close> by field (\<^verbatim>\<open>streamid[2]\<close>,
  \<^verbatim>\<open>requestid\<close>, 16 bytes of request parameters, \<^verbatim>\<open>dlen\<close>), the bytes that follow the
  header (\<^verbatim>\<open>GetBuffer( 24 )\<close>), and the session id and the description that
  \<^verbatim>\<open>XrdCl::Message\<close> keeps beside the buffer.
\<close>

record Message =
  streamid :: u16
  requestid :: u16
  reqparams :: string
  dlen :: u32
  payload :: string
  sessionId :: nat
  description :: string

text \<open>
  \<^verbatim>\<open>XrdCl::URL\<close> is declared outside the files at hand. Of a URL the model keeps the host
  id, the path, the CGI parameters and validity; parsing a string and printing the path
  with its parameters are parameters of the model, as are the three functions of
  \<^verbatim>\<open>XRootDTransport\<close> (\<open>SetDescription\<close> gives the new description of a message).
\<close>

record URL =
  hostId :: string
  path :: string
  params :: ParamsMap
  valid :: bool

record Transport =
  URL_ctor :: "string \<Rightarrow> URL"
  GetPathWithParams :: "URL \<Rightarrow> string"
  MarshallRequest :: "Message \<Rightarrow> Message"
  UnMarshallRequest :: "Message \<Rightarrow> Message"
  SetDescription :: "Message \<Rightarrow> string"

subsection \<open>RewriteCGIAndPath\<close>

text \<open>
  The loop \<^verbatim>\<open>for( i = 0; i < dlen; ++i, ++path ) if( *path == ' ' ) break;\<close> over the bytes
  \<open>p\<close> at the cursor: the number of bytes skipped. \<open>None\<close>: the loop reads past the end of
  the buffer.
\<close>

fun skip_to_space :: "string \<Rightarrow> nat \<Rightarrow> nat option" where
  "skip_to_space p 0 = Some 0"
| "skip_to_space [] (Suc n) = None"
| "skip_to_space (c # cs) (Suc n) =
     (if c = CHR '' '' then Some 0 else map_option Suc (skip_to_space cs n))"

text \<open>
  The offset of the path in the payload and its length: for \<^verbatim>\<open>kXR_mv\<close> the path that
  follows the first space. \<open>None\<close>: \<^verbatim>\<open>dlen\<close> is negative, or no space is found before
  \<^verbatim>\<open>dlen\<close> (\<^verbatim>\<open>--length\<close> wraps around and \<^verbatim>\<open>memcpy\<close> leaves the buffer), or the path does
  not lie inside the buffer.
\<close>

definition path_region :: "XProtocol \<Rightarrow> Message \<Rightarrow> (nat \<times> nat) option" where
  "path_region xp msg =
     (if sint (dlen msg) < 0 then None
      else
        (let n = unat (dlen msg) in
         if requestid msg = kXR_mv xp then
           (case skip_to_space (payload msg) n of
              None \<Rightarrow> None
            | Some i \<Rightarrow>
                if i < n \<and> n \<le> length (payload msg) then Some (i + 1, n - i - 1) else None)
         else if n \<le> length (payload msg) then Some (0, n) else None))"

text \<open>
  \<^verbatim>\<open>ReAllocate( sz )\<close> followed by the second search for the path and the \<^verbatim>\<open>memcpy\<close>
  of the new path. \<open>None\<close>: the new buffer is shorter than the header, or the copy leaves
  it. Bytes that \<^verbatim>\<open>realloc\<close> adds are overwritten by the copy whenever it stays inside.
\<close>

definition write_path :: "XProtocol \<Rightarrow> Message \<Rightarrow> u32 \<Rightarrow> string \<Rightarrow> Message option" where
  "write_path xp msg sz newPathWitParams =
     (if unat sz < 24 then None
      else
        (let buf = resize (unat sz - 24) (CHR 0x00) (payload msg);
             off = (if requestid msg = kXR_mv xp
                    then map_option Suc (skip_to_space buf (unat (dlen msg)))
                    else Some 0)
         in case off of
              None \<Rightarrow> None
            | Some p \<Rightarrow>
                if p + length newPathWitParams \<le> length buf
                then Some (msg\<lparr>payload := poke p newPathWitParams buf\<rparr>)
                else None))"

definition path_request :: "XProtocol \<Rightarrow> u16 \<Rightarrow> bool" where
  "path_request xp rid =
     (rid = kXR_chmod xp \<or> rid = kXR_mkdir xp \<or> rid = kXR_mv xp \<or> rid = kXR_open xp \<or>
      rid = kXR_rm xp \<or> rid = kXR_rmdir xp \<or> rid = kXR_stat xp \<or> rid = kXR_truncate xp)"

text \<open>
  \<open>None\<close> stands for undefined behaviour of the C++ (a read or a write outside the
  message buffer). The string printed from \<^verbatim>\<open>pathWithNull\<close> ends at its first zero byte.
\<close>

definition RewriteCGIAndPath ::
  "XProtocol \<Rightarrow> Transport \<Rightarrow> Message \<Rightarrow> ParamsMap \<Rightarrow> bool \<Rightarrow> string \<Rightarrow> Message option" where
  "RewriteCGIAndPath xp tr msg newCgi replace newPath =
     map_option (\<lambda>m. m\<lparr>description := SetDescription tr m\<rparr>)
       (if path_request xp (requestid msg) then
          (case path_region xp msg of
             None \<Rightarrow> None
           | Some (off, len) \<Rightarrow>
               (let pathWithNull = takeWhile (\<lambda>c. c \<noteq> CHR 0x00) (take len (drop off (payload msg)));
                    currentPath = URL_ctor tr (''fake://fake:111/'' @ pathWithNull);
                    currentCgi = MergeCGI (params currentPath) newCgi replace;
                    currentPath = currentPath\<lparr>params := currentCgi\<rparr>;
                    currentPath = (if newPath \<noteq> [] then currentPath\<lparr>path := newPath\<rparr>
                                   else currentPath);
                    newPathWitParams = GetPathWithParams tr currentPath;
                    newDlen = dlen msg - word_of_nat len + word_of_nat (length newPathWitParams)
                in map_option (\<lambda>m. m\<lparr>dlen := newDlen\<rparr>)
                     (write_path xp msg (24 + newDlen) newPathWitParams)))
        else Some msg)"

subsection \<open>MsgHandlerRef\<close>

type_synonym ptr = nat

text \<open>
  The counted reference without its mutex: calls on one cell are serialised by the
  mutex and are steps of a sequential model. \<open>ref\<close> is the handler pointer (\<open>None\<close> is
  the null pointer), \<open>count\<close> is a \<^verbatim>\<open>uint16_t\<close>.
\<close>

record MsgHandlerRef =
  ref :: "ptr option"
  count :: u16

definition MsgHandlerRef_ctor :: "ptr option \<Rightarrow> MsgHandlerRef" where
  "MsgHandlerRef_ctor handler = \<lparr>ref = handler, count = 1\<rparr>"

definition operator_arrow :: "MsgHandlerRef \<Rightarrow> ptr option" where
  "operator_arrow c = ref c"

definition operator_bool :: "MsgHandlerRef \<Rightarrow> bool" where
  "operator_bool c = (ref c \<noteq> None)"

text \<open>\<^verbatim>\<open>Self\<close> returns \<^verbatim>\<open>*this\<close>: the cell it was called on, after the increment.\<close>

definition Self :: "MsgHandlerRef \<Rightarrow> MsgHandlerRef" where
  "Self c = c\<lparr>count := count c + 1\<rparr>"

definition Invalidate :: "MsgHandlerRef \<Rightarrow> MsgHandlerRef" where
  "Invalidate c = c\<lparr>ref := None\<rparr>"

text \<open>\<^verbatim>\<open>Free\<close>: \<open>None\<close> when the cell has deleted itself, the cell otherwise.\<close>

definition Free :: "MsgHandlerRef \<Rightarrow> MsgHandlerRef option" where
  "Free c = (let c' = c\<lparr>count := count c - 1\<rparr> in if count c' = 0 then None else Some c')"

text \<open>
  A sequence of calls on one cell. The state is \<open>Some c\<close> for a live cell and \<open>None\<close>
  for a deleted one; the result is \<open>None\<close> when a call is made on a deleted cell.
\<close>

datatype RefCall = CallSelf | CallInvalidate | CallFree

fun ref_call :: "RefCall \<Rightarrow> MsgHandlerRef \<Rightarrow> MsgHandlerRef option" where
  "ref_call CallSelf c = Some (Self c)"
| "ref_call CallInvalidate c = Some (Invalidate c)"
| "ref_call CallFree c = Free c"

fun ref_calls :: "RefCall list \<Rightarrow> MsgHandlerRef option \<Rightarrow> MsgHandlerRef option option" where
  "ref_calls [] s = Some s"
| "ref_calls (a # as) None = None"
| "ref_calls (a # as) (Some c) = ref_calls as (ref_call a c)"

text \<open>
  The protocol of the holders of a cell with \<open>n\<close> references outstanding: \<^verbatim>\<open>Self\<close> adds a
  holder, every holder calls \<^verbatim>\<open>Free\<close> once, nobody calls the cell after giving up the
  reference, and the sequence ends when no holder is left. \<open>bound\<close> limits the number of
  holders at any time.
\<close>

fun holders :: "nat \<Rightarrow> nat \<Rightarrow> RefCall list \<Rightarrow> bool" where
  "holders bound n [] = (n = 0)"
| "holders bound n (CallSelf # cs) = (0 < n \<and> n + 1 < bound \<and> holders bound (n + 1) cs)"
| "holders bound n (CallInvalidate # cs) = (0 < n \<and> holders bound n cs)"
| "holders bound n (CallFree # cs) = (0 < n \<and> holders bound (n - 1) cs)"

subsection \<open>XRootDMsgHandler: the inline part\<close>

text \<open>
  \<^verbatim>\<open>HostInfo\<close>, \<^verbatim>\<open>ChunkInfo\<close> and \<^verbatim>\<open>MessageSendParams\<close> are declared outside the files
  at hand; the fields are those the code reads. The \<^verbatim>\<open>url\<close> of a \<^verbatim>\<open>HostInfo\<close> is the field
  \<open>hostUrl\<close>, the \<^verbatim>\<open>loadBalancer\<close> of the send parameters is \<open>lbInfo\<close>, the flag
  \<^verbatim>\<open>done\<close> of a \<^verbatim>\<open>ChunkStatus\<close> is \<open>chunkDone\<close>.
\<close>

record HostInfo =
  flags :: u32
  protocol :: u32
  loadBalancer :: bool
  hostUrl :: URL

definition HostInfo_ctor :: "URL \<Rightarrow> bool \<Rightarrow> HostInfo" where
  "HostInfo_ctor u lb = \<lparr>flags = 0, protocol = 0, loadBalancer = lb, hostUrl = u\<rparr>"

record ChunkInfo =
  chunkOffset :: nat
  chunkLength :: nat
  chunkBuffer :: ptr

record ChunkStatus =
  sizeError :: bool
  chunkDone :: bool

definition ChunkStatus_ctor :: ChunkStatus where
  "ChunkStatus_ctor = \<lparr>sizeError = False, chunkDone = False\<rparr>"

record MessageSendParams =
  timeout :: u16
  expires :: int
  followRedirects :: bool
  stateful :: bool
  lbInfo :: HostInfo
  chunkList :: "ChunkInfo list option"
  redirectLimit :: u16

text \<open>
  The fields of the handler that the constructor, the destructor and the setters use.
  The cursors of the raw readers (\<^verbatim>\<open>pAsync*\<close>, \<^verbatim>\<open>pReadRaw*\<close>, \<^verbatim>\<open>pReadVRaw*\<close>,
  \<^verbatim>\<open>pOtherRawStarted\<close>) are set to zero by the constructor and touched by no function at
  hand; they are left out. Pointers to objects that the handler owns or shares are
  addresses in the store below; the chunk list belongs to the caller and is kept by value.
  \<open>pSidMgr\<close> tells whether the pointer to the SID manager is set.
\<close>

record XRootDMsgHandler =
  pRequest :: ptr
  pResponse :: "ptr option"
  pPartialResps :: "ptr list"
  pResponseHandler :: "ptr option"
  pUrl :: URL
  pSidMgr :: bool
  pLFileHandler :: "ptr option"
  pExpiration :: int
  pRedirectAsAnswer :: bool
  pHosts :: "ptr option"
  pHasLoadBalancer :: bool
  pLoadBalancer :: "HostInfo option"
  pHasSessionId :: bool
  pChunkList :: "ChunkInfo list option"
  pChunkStatus :: "ChunkStatus list"
  pRedirectCounter :: u16
  pFollowMetalink :: bool
  pStateful :: bool
  pAggregatedWaitTime :: int
  pMsgInFly :: bool
  pRef :: ptr

text \<open>
  The constructor, for the request at address \<open>msg\<close> with contents \<open>m\<close> and the reference
  cell at address \<open>r\<close>. \<open>pLoadBalancer\<close> is default-constructed (\<open>None\<close>) until it is set.
\<close>

definition XRootDMsgHandler_ctor ::
  "ptr \<Rightarrow> Message \<Rightarrow> ptr option \<Rightarrow> URL \<Rightarrow> bool \<Rightarrow> ptr option \<Rightarrow> ptr \<Rightarrow> XRootDMsgHandler" where
  "XRootDMsgHandler_ctor msg m respHandler u sidMgr lFileHandler r =
     \<lparr>pRequest = msg, pResponse = None, pPartialResps = [], pResponseHandler = respHandler,
      pUrl = u, pSidMgr = sidMgr, pLFileHandler = lFileHandler, pExpiration = 0,
      pRedirectAsAnswer = False, pHosts = None, pHasLoadBalancer = False,
      pLoadBalancer = None, pHasSessionId = (sessionId m \<noteq> 0), pChunkList = None,
      pChunkStatus = [], pRedirectCounter = 0, pFollowMetalink = False, pStateful = False,
      pAggregatedWaitTime = 0, pMsgInFly = False, pRef = r\<rparr>"

definition SetExpiration :: "int \<Rightarrow> XRootDMsgHandler \<Rightarrow> XRootDMsgHandler" where
  "SetExpiration expiration h = h\<lparr>pExpiration := expiration\<rparr>"

definition SetRedirectAsAnswer :: "bool \<Rightarrow> XRootDMsgHandler \<Rightarrow> XRootDMsgHandler" where
  "SetRedirectAsAnswer redirectAsAnswer h = h\<lparr>pRedirectAsAnswer := redirectAsAnswer\<rparr>"

definition SetLoadBalancer :: "HostInfo \<Rightarrow> XRootDMsgHandler \<Rightarrow> XRootDMsgHandler" where
  "SetLoadBalancer lb h =
     (if \<not> valid (hostUrl lb) then h
      else h\<lparr>pLoadBalancer := Some lb, pHasLoadBalancer := True\<rparr>)"

text \<open>
  \<^verbatim>\<open>pChunkStatus.resize( n )\<close> keeps the entries that are there and appends
  default-constructed ones.
\<close>

definition SetChunkList :: "ChunkInfo list option \<Rightarrow> XRootDMsgHandler \<Rightarrow> XRootDMsgHandler" where
  "SetChunkList chunks h =
     (case chunks of
        Some cl \<Rightarrow> h\<lparr>pChunkList := chunks,
                      pChunkStatus := resize (length cl) ChunkStatus_ctor (pChunkStatus h)\<rparr>
      | None \<Rightarrow> h\<lparr>pChunkList := chunks, pChunkStatus := []\<rparr>)"

definition SetRedirectCounter :: "u16 \<Rightarrow> XRootDMsgHandler \<Rightarrow> XRootDMsgHandler" where
  "SetRedirectCounter redirectCounter h = h\<lparr>pRedirectCounter := redirectCounter\<rparr>"

definition SetFollowMetalink :: "bool \<Rightarrow> XRootDMsgHandler \<Rightarrow> XRootDMsgHandler" where
  "SetFollowMetalink followMetalink h = h\<lparr>pFollowMetalink := followMetalink\<rparr>"

definition SetStateful :: "bool \<Rightarrow> XRootDMsgHandler \<Rightarrow> XRootDMsgHandler" where
  "SetStateful st h = h\<lparr>pStateful := st\<rparr>"

subsection \<open>The store\<close>

text \<open>
  Objects created with \<^verbatim>\<open>new\<close> live in one heap per class. An address is an index into
  the heap, \<^verbatim>\<open>new\<close> appends (its address is fresh), \<^verbatim>\<open>delete\<close> leaves \<open>None\<close> behind.
  Using or deleting an object that is not live is undefined behaviour: \<open>None\<close> as the
  result of an operation.
\<close>

type_synonym 'a heap = "'a option list"

definition lookup :: "'a heap \<Rightarrow> ptr \<Rightarrow> 'a option" where
  "lookup hp p = (if p < length hp then hp ! p else None)"

definition alloc :: "'a \<Rightarrow> 'a heap \<Rightarrow> ptr \<times> 'a heap" where
  "alloc x hp = (length hp, hp @ [Some x])"

definition store :: "ptr \<Rightarrow> 'a \<Rightarrow> 'a heap \<Rightarrow> 'a heap option" where
  "store p x hp = (case lookup hp p of None \<Rightarrow> None | Some _ \<Rightarrow> Some (hp[p := Some x]))"

definition dealloc :: "ptr \<Rightarrow> 'a heap \<Rightarrow> 'a heap option" where
  "dealloc p hp = (case lookup hp p of None \<Rightarrow> None | Some _ \<Rightarrow> Some (hp[p := None]))"

text \<open>
  \<^verbatim>\<open>PostMaster\<close> and \<^verbatim>\<open>SIDManager\<close> are collaborators outside the files at hand. The
  outcome of \<^verbatim>\<open>QueryTransport\<close> and of \<^verbatim>\<open>Send\<close> (for the URL, the message, the address
  of the handler, the flag and the deadline it is called with), and the status and
  stream id that \<^verbatim>\<open>AllocateSID\<close> gives for a set of allocated ids, are parameters.
\<close>

record PostMaster =
  QueryTransport :: "URL \<Rightarrow> Status"
  AllocateSID :: "u16 set \<Rightarrow> Status \<times> u16"
  Send :: "URL \<Rightarrow> Message \<Rightarrow> ptr \<Rightarrow> bool \<Rightarrow> int \<Rightarrow> Status"

text \<open>
  Modelled from the spec: the state of the SID manager and of the PostMaster's dispatch,
  whose classes are not among the files at hand. "SIDManager allocates/releases
  per-connection stream identifiers": \<open>sids\<close> is the set of allocated stream ids, a
  successful \<^verbatim>\<open>AllocateSID\<close> adds the id it gives, \<^verbatim>\<open>ReleaseSID\<close> removes its argument.
  "PostMaster.Send \<rightarrow> handler installed in SID dispatch": \<open>installed\<close> lists the handlers
  that a successful \<^verbatim>\<open>Send\<close> has taken. \<open>postMaster\<close> is what
  \<^verbatim>\<open>DefaultEnv::GetPostMaster()\<close> returns.
\<close>

record World =
  postMaster :: "PostMaster option"
  sids :: "u16 set"
  installed :: "ptr list"
  messages :: "Message heap"
  handlers :: "XRootDMsgHandler heap"
  cells :: "MsgHandlerRef heap"
  hostLists :: "HostInfo list heap"

definition ReleaseSID :: "u16 \<Rightarrow> World \<Rightarrow> World" where
  "ReleaseSID sid w = w\<lparr>sids := sids w - {sid}\<rparr>"

definition delete_Message :: "ptr \<Rightarrow> World \<Rightarrow> World option" where
  "delete_Message p w = map_option (\<lambda>hp. w\<lparr>messages := hp\<rparr>) (dealloc p (messages w))"

fun delete_Messages :: "ptr list \<Rightarrow> World \<Rightarrow> World option" where
  "delete_Messages [] w = Some w"
| "delete_Messages (p # ps) w = Option.bind (delete_Message p w) (delete_Messages ps)"

definition delete_HostList :: "ptr \<Rightarrow> World \<Rightarrow> World option" where
  "delete_HostList p w = map_option (\<lambda>hp. w\<lparr>hostLists := hp\<rparr>) (dealloc p (hostLists w))"

text \<open>\<^verbatim>\<open>pRef->Free()\<close> on the cell at address \<open>r\<close>.\<close>

definition Free_at :: "ptr \<Rightarrow> World \<Rightarrow> World option" where
  "Free_at r w =
     (case lookup (cells w) r of
        None \<Rightarrow> None
      | Some c \<Rightarrow> Some (w\<lparr>cells := (cells w)[r := Free c]\<rparr>))"

text \<open>
  \<^verbatim>\<open>new XRootDMsgHandler( msg, respHandler, &url, sidMgr, lFileHandler )\<close>: the
  constructor reads the session id of the message and creates the reference cell.
\<close>

definition new_XRootDMsgHandler ::
  "ptr \<Rightarrow> ptr option \<Rightarrow> URL \<Rightarrow> bool \<Rightarrow> ptr option \<Rightarrow> World \<Rightarrow> (ptr \<times> World) option" where
  "new_XRootDMsgHandler msg respHandler u sidMgr lFileHandler w =
     (case lookup (messages w) msg of
        None \<Rightarrow> None
      | Some m \<Rightarrow>
          (let this = length (handlers w);
               (r, cs) = alloc (MsgHandlerRef_ctor (Some this)) (cells w);
               (this, hs) = alloc (XRootDMsgHandler_ctor msg m respHandler u sidMgr lFileHandler r)
                              (handlers w)
           in Some (this, w\<lparr>cells := cs, handlers := hs\<rparr>)))"

text \<open>The destructor, and \<^verbatim>\<open>delete msgHandler\<close>.\<close>

definition XRootDMsgHandler_dtor :: "XRootDMsgHandler \<Rightarrow> World \<Rightarrow> World option" where
  "XRootDMsgHandler_dtor h w =
     do {
       w1 \<leftarrow> Free_at (pRef h) w;
       w2 \<leftarrow> (if \<not> pHasSessionId h then delete_Message (pRequest h) w1 else Some w1);
       w3 \<leftarrow> (case pResponse h of None \<Rightarrow> Some w2 | Some p \<Rightarrow> delete_Message p w2);
       delete_Messages (pPartialResps h) w3
     }"

definition delete_XRootDMsgHandler :: "ptr \<Rightarrow> World \<Rightarrow> World option" where
  "delete_XRootDMsgHandler this w =
     do {
       h \<leftarrow> lookup (handlers w) this;
       w1 \<leftarrow> XRootDMsgHandler_dtor h w;
       hs \<leftarrow> dealloc this (handlers w1);
       Some (w1\<lparr>handlers := hs\<rparr>)
     }"

text \<open>A call \<^verbatim>\<open>msgHandler->f( ... )\<close> of a setter that changes the handler only.\<close>

definition call :: "ptr \<Rightarrow> (XRootDMsgHandler \<Rightarrow> XRootDMsgHandler) \<Rightarrow> World \<Rightarrow> World option" where
  "call this f w =
     do {
       h \<leftarrow> lookup (handlers w) this;
       hs \<leftarrow> store this (f h) (handlers w);
       Some (w\<lparr>handlers := hs\<rparr>)
     }"

text \<open>\<^verbatim>\<open>SetHostList\<close> deletes the list the handler had.\<close>

definition SetHostList :: "ptr option \<Rightarrow> ptr \<Rightarrow> World \<Rightarrow> World option" where
  "SetHostList hostList this w =
     do {
       h \<leftarrow> lookup (handlers w) this;
       w1 \<leftarrow> (case pHosts h of None \<Rightarrow> Some w | Some l \<Rightarrow> delete_HostList l w);
       call this (\<lambda>h. h\<lparr>pHosts := hostList\<rparr>) w1
     }"

definition new_HostList :: "World \<Rightarrow> ptr \<times> World" where
  "new_HostList w = (let (l, hp) = alloc [] (hostLists w) in (l, w\<lparr>hostLists := hp\<rparr>))"

definition push_back :: "ptr \<Rightarrow> HostInfo \<Rightarrow> World \<Rightarrow> World option" where
  "push_back l x w =
     do {
       xs \<leftarrow> lookup (hostLists w) l;
       hp \<leftarrow> store l (xs @ [x]) (hostLists w);
       Some (w\<lparr>hostLists := hp\<rparr>)
     }"

definition put_Message :: "ptr \<Rightarrow> Message \<Rightarrow> World \<Rightarrow> World option" where
  "put_Message p m w = map_option (\<lambda>hp. w\<lparr>messages := hp\<rparr>) (store p m (messages w))"

subsection \<open>SendMessage\<close>

text \<open>
  The branch taken when \<^verbatim>\<open>Send\<close> fails: the request is unmarshalled, the stream id read
  from its header is released, the handler and the host list are deleted.
\<close>

definition send_failed :: "Transport \<Rightarrow> ptr \<Rightarrow> ptr \<Rightarrow> ptr \<Rightarrow> World \<Rightarrow> World option" where
  "send_failed tr msg msgHandler list w =
     do {
       m \<leftarrow> lookup (messages w) msg;
       w1 \<leftarrow> put_Message msg (UnMarshallRequest tr m) w;
       req \<leftarrow> lookup (messages w1) msg;
       w2 \<leftarrow> delete_XRootDMsgHandler msgHandler (ReleaseSID (streamid req) w1);
       delete_HostList list w2
     }"

text \<open>
  The handler is set up between the allocation of the stream id and \<^verbatim>\<open>Send\<close>; \<open>None\<close>
  is undefined behaviour (a dangling \<open>msg\<close>).
\<close>

definition setup_handler ::
  "URL \<Rightarrow> ptr \<Rightarrow> ptr option \<Rightarrow> MessageSendParams \<Rightarrow> ptr option \<Rightarrow> World \<Rightarrow>
   (ptr \<times> ptr \<times> World) option" where
  "setup_handler u msg handler sendParams lFileHandler w =
     do {
       (msgHandler, w1) \<leftarrow> new_XRootDMsgHandler msg handler u True lFileHandler w;
       w2 \<leftarrow> call msgHandler (SetExpiration (expires sendParams)) w1;
       w3 \<leftarrow> call msgHandler (SetRedirectAsAnswer (\<not> followRedirects sendParams)) w2;
       w4 \<leftarrow> call msgHandler (SetChunkList (chunkList sendParams)) w3;
       w5 \<leftarrow> call msgHandler (SetRedirectCounter (redirectLimit sendParams)) w4;
       w6 \<leftarrow> call msgHandler (SetStateful (stateful sendParams)) w5;
       w7 \<leftarrow> (if valid (hostUrl (lbInfo sendParams))
               then call msgHandler (SetLoadBalancer (lbInfo sendParams)) w6
               else Some w6);
       (list, w8) \<leftarrow> Some (new_HostList w7);
       w9 \<leftarrow> push_back list (HostInfo_ctor u False) w8;
       w10 \<leftarrow> SetHostList (Some list) msgHandler w9;
       Some (msgHandler, list, w10)
     }"

definition SendMessage ::
  "Transport \<Rightarrow> URL \<Rightarrow> ptr \<Rightarrow> ptr option \<Rightarrow> MessageSendParams \<Rightarrow> ptr option \<Rightarrow> World \<Rightarrow>
   (Status \<times> World) option" where
  "SendMessage tr u msg handler sendParams lFileHandler w =
     (case postMaster w of
        None \<Rightarrow> Some (Status_ctor stError errUninitialized, w)
      | Some pm \<Rightarrow>
          (case lookup (messages w) msg of
             None \<Rightarrow> None
           | Some m \<Rightarrow>
               if \<not> IsOK (QueryTransport pm u) then Some (QueryTransport pm u, w)
               else
                 (case AllocateSID pm (sids w) of
                    (st, sid) \<Rightarrow>
                      if \<not> IsOK st then Some (st, w)
                      else
                        do {
                          w1 \<leftarrow> put_Message msg (MarshallRequest tr (m\<lparr>streamid := sid\<rparr>))
                                  (w\<lparr>sids := insert sid (sids w)\<rparr>);
                          (msgHandler, list, w2) \<leftarrow>
                            setup_handler u msg handler sendParams lFileHandler w1;
                          req \<leftarrow> lookup (messages w2) msg;
                          (let st = Send pm u req msgHandler (stateful sendParams)
                                      (expires sendParams)
                           in if \<not> IsOK st
                              then map_option (Pair st) (send_failed tr msg msgHandler list w2)
                              else Some (Status_default,
                                         w2\<lparr>installed := installed w2 @ [msgHandler]\<rparr>))
                        })))"

subsection \<open>Sequences of setter calls\<close>

datatype Setter =
    CallSetExpiration int
  | CallSetRedirectAsAnswer bool
  | CallSetLoadBalancer HostInfo
  | CallSetHostList "ptr option"
  | CallSetChunkList "ChunkInfo list option"
  | CallSetRedirectCounter u16
  | CallSetFollowMetalink bool
  | CallSetStateful bool

text \<open>What a setter does to the fields of the handler.\<close>

fun setter :: "Setter \<Rightarrow> XRootDMsgHandler \<Rightarrow> XRootDMsgHandler" where
  "setter (CallSetExpiration t) h = SetExpiration t h"
| "setter (CallSetRedirectAsAnswer b) h = SetRedirectAsAnswer b h"
| "setter (CallSetLoadBalancer lb) h = SetLoadBalancer lb h"
| "setter (CallSetHostList l) h = h\<lparr>pHosts := l\<rparr>"
| "setter (CallSetChunkList cl) h = SetChunkList cl h"
| "setter (CallSetRedirectCounter n) h = SetRedirectCounter n h"
| "setter (CallSetFollowMetalink b) h = SetFollowMetalink b h"
| "setter (CallSetStateful b) h = SetStateful b h"

text \<open>The same calls on the handler at address \<open>this\<close> of the store.\<close>

fun call_setter :: "ptr \<Rightarrow> Setter \<Rightarrow> World \<Rightarrow> World option" where
  "call_setter this (CallSetHostList l) w = SetHostList l this w"
| "call_setter this c w = call this (setter c) w"

fun call_setters :: "ptr \<Rightarrow> Setter list \<Rightarrow> World \<Rightarrow> World option" where
  "call_setters this [] w = Some w"
| "call_setters this (c # cs) w = Option.bind (call_setter this c w) (call_setters this cs)"

subsection \<open>Sample values\<close>

text \<open>
  Concrete collaborators and inputs on which the theorems below are exercised. The
  inserters store what the protocol prescribes: a two-byte return code and the
  zero-terminated name, and the four-byte big-endian length followed by the value.
\<close>

definition be32 :: "nat \<Rightarrow> string" where
  "be32 n = map (\<lambda>k. char_of (n div 256 ^ k)) [3, 2, 1, 0]"

definition c_str :: "string \<Rightarrow> string" where
  "c_str s = takeWhile (\<lambda>c. c \<noteq> CHR 0x00) s"

definition sample_protocol :: XProtocol where
  "sample_protocol =
     \<lparr>kXR_chmod = 3002, kXR_mkdir = 3008, kXR_mv = 3009, kXR_open = 3010, kXR_rm = 3014,
      kXR_rmdir = 3015, kXR_stat = 3017, kXR_truncate = 3028,
      kXR_faMaxVars = 16, kXR_faMaxNlen = 248, kXR_faMaxVlen = 65536,
      NVecInsert = (\<lambda>name. [CHR 0x00, CHR 0x00] @ c_str name @ [CHR 0x00]),
      VVecInsert = (\<lambda>val. be32 (length (c_str val)) @ c_str val)\<rparr>"

definition swap16 :: "u16 \<Rightarrow> u16" where
  "swap16 x = push_bit 8 x OR drop_bit 8 x"

definition sample_url :: "string \<Rightarrow> string \<Rightarrow> URL" where
  "sample_url h p = \<lparr>hostId = h, path = p, params = [], valid = True\<rparr>"

definition sample_transport :: Transport where
  "sample_transport =
     \<lparr>URL_ctor = (\<lambda>s. sample_url ''fake:111'' (drop 16 s)),
      GetPathWithParams =
        (\<lambda>u. if params u = [] then path u
             else path u @ CHR ''?'' #
                  tl (concat (map (\<lambda>(k, v). CHR ''&'' # k @ CHR ''='' # v) (params u)))),
      MarshallRequest = (\<lambda>m. m\<lparr>requestid := swap16 (requestid m)\<rparr>),
      UnMarshallRequest = (\<lambda>m. m\<lparr>requestid := swap16 (requestid m)\<rparr>),
      SetDescription = (\<lambda>m. ''request: '' @ payload m)\<rparr>"

definition sample_message :: "u16 \<Rightarrow> string \<Rightarrow> nat \<Rightarrow> Message" where
  "sample_message rid p sess =
     \<lparr>streamid = 0, requestid = rid, reqparams = replicate 16 (CHR 0x00),
      dlen = word_of_nat (length p), payload = p, sessionId = sess, description = []\<rparr>"

definition sample_params :: MessageSendParams where
  "sample_params =
     \<lparr>timeout = 0, expires = 1000, followRedirects = True, stateful = True,
      lbInfo = HostInfo_ctor (sample_url [] [] \<lparr>valid := False\<rparr>) False,
      chunkList = Some [\<lparr>chunkOffset = 0, chunkLength = 4096, chunkBuffer = 0\<rparr>,
                        \<lparr>chunkOffset = 8192, chunkLength = 4096, chunkBuffer = 1\<rparr>],
      redirectLimit = 3\<rparr>"

text \<open>A PostMaster whose \<^verbatim>\<open>Send\<close> answers \<open>st\<close> and that hands out stream id 7.\<close>

definition sample_postMaster :: "Status \<Rightarrow> PostMaster" where
  "sample_postMaster st =
     \<lparr>QueryTransport = (\<lambda>u. Status_default),
      AllocateSID = (\<lambda>used. (Status_default, 7)),
      Send = (\<lambda>u m h stf ex. st)\<rparr>"

definition sample_world :: "Status \<Rightarrow> nat \<Rightarrow> World" where
  "sample_world st sess =
     \<lparr>postMaster = Some (sample_postMaster st), sids = {1, 2}, installed = [],
      messages = [Some (sample_message 3010 ''/a'' sess)], handlers = [], cells = [],
      hostLists = []\<rparr>"

text \<open>
  The status vector is parallel to the chunk list and holds default-constructed entries:
  what the constructor establishes and the setters keep.
\<close>

definition chunks_parallel :: "XRootDMsgHandler \<Rightarrow> bool" where
  "chunks_parallel h =
     (pChunkStatus h =
        replicate (case pChunkList h of None \<Rightarrow> 0 | Some cl \<Rightarrow> length cl) ChunkStatus_ctor)"

text \<open>
  The handler at \<open>this\<close> as the constructor leaves the fields that the destructor reads:
  the request is \<open>msg\<close>, there is no response, the session flag is \<open>sess\<close> and the
  reference cell is at \<open>r\<close>.
\<close>

definition destructible :: "ptr \<Rightarrow> ptr \<Rightarrow> bool \<Rightarrow> ptr \<Rightarrow> World \<Rightarrow> bool" where
  "destructible this msg sess r w =
     (\<exists>h. lookup (handlers w) this = Some h \<and> pRequest h = msg \<and> pResponse h = None \<and>
          pPartialResps h = [] \<and> pHasSessionId h = sess \<and> pRef h = r)"

subsection \<open>The life cycle of a request\<close>

text \<open>
  Modelled from the spec: the states of the handler's state machine (section 4.9), whose
  code, \<^verbatim>\<open>XrdClXRootDMsgHandler.cc\<close>, is not among the files at hand.
\<close>

datatype Phase = Init | InFlight | ReadingRaw | WritingRaw | AwaitingMore | Classifying
  | Completed | Redirecting | Waiting | Retrying | Terminal

text \<open>
  Modelled from the spec: what can happen to a request (sections 4.5, 4.6, 4.8 and 4.9).
  The calls of the PostMaster for one handler are serialised (section 5), so they form a
  sequence. \<open>Redirect\<close> is a redirect to a server, \<open>LocalRedirect\<close> one to a \<^verbatim>\<open>file://\<close>
  target, with the code of the result that the local file handler would give.
  \<open>RetryAt\<close> is a recoverable error of the server or of the stream, which section 4.5
  answers with "a retry at the load balancer"; it carries the URL of the retry.
  \<open>ErrorNotRetryable\<close>, \<open>StreamFatal\<close> and \<open>Cancelled\<close> carry the code of the error.
\<close>

datatype Event =
    SendSucceeded
  | ExamineRaw
  | OkSoFar
  | Redirect URL
  | LocalRedirect URL ErrCode
  | WaitAnswer
  | TimerFired
  | RetryAt URL
  | FinalResponse
  | ErrorNotRetryable ErrCode
  | DeadlineExpired
  | StreamFatal ErrCode
  | Cancelled ErrCode

text \<open>
  Modelled from the spec: the events on which "Any \<rightarrow> Terminal" (section 4.9: deadline,
  error-not-retryable, stream-fatal, successful completion; section 4.6: cancellation
  "is treated as fatal").
\<close>

fun terminal_event :: "Event \<Rightarrow> bool" where
  "terminal_event FinalResponse = True"
| "terminal_event (ErrorNotRetryable cod) = True"
| "terminal_event DeadlineExpired = True"
| "terminal_event (StreamFatal cod) = True"
| "terminal_event (Cancelled cod) = True"
| "terminal_event e = False"

text \<open>
  Modelled from the spec: the state of one request. \<open>hstate\<close> holds the fields of the
  handler, \<open>hosts\<close> is the host list it points to, \<open>contacted\<close> lists the URLs that the
  request has been handed to \<^verbatim>\<open>PostMaster.Send\<close> for, in order, and \<open>responses\<close> lists the
  invocations of the user's \<^verbatim>\<open>ResponseHandler\<close>, each with the code of the status and
  the host list handed over.
\<close>

record Lifecycle =
  phase :: Phase
  hstate :: XRootDMsgHandler
  hosts :: "HostInfo list"
  contacted :: "URL list"
  responses :: "(ErrCode \<times> HostInfo list) list"

text \<open>
  Modelled from the spec: "Init \<rightarrow> InFlight on successful Send". The request that
  \<^verbatim>\<open>SendMessage\<close> has sent for the handler \<open>h\<close> with the host list \<open>hl\<close>: it has been
  handed to \<^verbatim>\<open>Send\<close> once, for the URL of the handler.
\<close>

definition sent :: "XRootDMsgHandler \<Rightarrow> HostInfo list \<Rightarrow> Lifecycle" where
  "sent h hl = \<lparr>phase = InFlight, hstate = h, hosts = hl, contacted = [pUrl h], responses = []\<rparr>"

text \<open>
  Modelled from the spec: "Terminal is reached exactly once per handler and triggers
  callback + self-destruction"; the callback gets the status and the host list.
\<close>

definition finish :: "ErrCode \<Rightarrow> Lifecycle \<Rightarrow> Lifecycle" where
  "finish cod s = s\<lparr>phase := Terminal, responses := responses s @ [(cod, hosts s)]\<rparr>"

text \<open>
  Modelled from the spec: the request is sent again, to \<open>newUrl\<close>. The header declares
  \<^verbatim>\<open>RetryAtServer( const URL &url )\<close>, "Retry the request at another server"; its body
  is not among the files at hand. The host list is the "ordered sequence of URLs
  visited" (section 3) and "equals the ordered sequence of URLs actually contacted"
  (section 8): every send puts its target at the end of the host list. The target
  becomes the current URL of the handler.
\<close>

definition RetryAtServer :: "URL \<Rightarrow> Lifecycle \<Rightarrow> Lifecycle" where
  "RetryAtServer newUrl s =
     s\<lparr>hstate := (hstate s)\<lparr>pUrl := newUrl\<rparr>,
       hosts := hosts s @ [HostInfo_ctor newUrl False],
       contacted := contacted s @ [newUrl]\<rparr>"

text \<open>
  Modelled from the spec: a redirect to a server (section 4.5). "Decrement the redirect
  counter; if zero, terminal error errRedirectLimit": the counter is tested before it is
  decremented, as scenario 5 fixes it (with a limit of 3, three redirects are followed and
  the host list has 4 entries). Then "mark pHasLoadBalancer if this is the first redirect
  (the origin becomes load balancer), append to HostList" and send to the new URL.
\<close>

definition follow_redirect :: "URL \<Rightarrow> Lifecycle \<Rightarrow> Lifecycle" where
  "follow_redirect newUrl s =
     (let h = hstate s;
          h1 = h\<lparr>pRedirectCounter := pRedirectCounter h - 1\<rparr>;
          h2 = (if pHasLoadBalancer h1 then h1
                else h1\<lparr>pLoadBalancer := Some (HostInfo_ctor (pUrl h1) True),
                        pHasLoadBalancer := True\<rparr>)
      in RetryAtServer newUrl (s\<lparr>phase := Redirecting, hstate := h2\<rparr>))"

text \<open>
  Modelled from the spec: a redirect that reaches a handler with \<^verbatim>\<open>pRedirectAsAnswer\<close>
  (set by \<^verbatim>\<open>SendMessage\<close> when the caller does not follow redirects). Section 4.5 does
  not name the flag; the header documents it: "Treat the kXR_redirect response as a
  valid answer to the message and notify the handler with the URL as a response". The
  redirect takes one from the counter as any other and completes the request: nothing
  is sent and the host list stays as it is.
\<close>

definition redirect_as_answer :: "Lifecycle \<Rightarrow> Lifecycle" where
  "redirect_as_answer s =
     finish errNone
       (s\<lparr>hstate := (hstate s)\<lparr>pRedirectCounter := pRedirectCounter (hstate s) - 1\<rparr>\<rparr>)"

text \<open>
  Modelled from the spec: a redirect to a \<^verbatim>\<open>file://\<close> target (section 4.8). With a local
  file handler "its result is injected as the terminal response without further network
  activity. The redirect counter still decrements"; without one the redirect is followed
  as any other.
\<close>

definition local_redirect :: "URL \<Rightarrow> ErrCode \<Rightarrow> Lifecycle \<Rightarrow> Lifecycle" where
  "local_redirect newUrl cod s =
     (if pLFileHandler (hstate s) = None then follow_redirect newUrl s
      else finish cod
             (s\<lparr>hstate := (hstate s)\<lparr>pRedirectCounter := pRedirectCounter (hstate s) - 1\<rparr>\<rparr>))"

text \<open>
  Modelled from the spec: the transitions of section 4.9. A handler that has reached
  \<open>Terminal\<close> has destroyed itself and takes no further event; an event for which the
  state has no transition leaves the state as it is. On the timer of a wait the handler
  does "Send again to the same URL" (section 4.5); a retry is in flight again once it
  has been sent, like a redirect.
\<close>

fun step :: "Event \<Rightarrow> Lifecycle \<Rightarrow> Lifecycle" where
  "step e s =
     (if phase s = Terminal then s
      else
        (case e of
           SendSucceeded \<Rightarrow>
             if phase s = Init \<or> phase s = Redirecting \<or> phase s = Retrying
             then s\<lparr>phase := InFlight\<rparr> else s
         | ExamineRaw \<Rightarrow> if phase s = InFlight then s\<lparr>phase := ReadingRaw\<rparr> else s
         | OkSoFar \<Rightarrow>
             if phase s = InFlight \<or> phase s = ReadingRaw then s\<lparr>phase := AwaitingMore\<rparr>
             else s
         | Redirect newUrl \<Rightarrow>
             if pRedirectCounter (hstate s) = 0 then finish errRedirectLimit s
             else if pRedirectAsAnswer (hstate s) then redirect_as_answer s
             else follow_redirect newUrl s
         | LocalRedirect newUrl cod \<Rightarrow>
             if pRedirectCounter (hstate s) = 0 then finish errRedirectLimit s
             else if pRedirectAsAnswer (hstate s) then redirect_as_answer s
             else local_redirect newUrl cod s
         | WaitAnswer \<Rightarrow> s\<lparr>phase := Waiting\<rparr>
         | TimerFired \<Rightarrow>
             if phase s = Waiting then RetryAtServer (pUrl (hstate s)) (s\<lparr>phase := InFlight\<rparr>)
             else s
         | RetryAt newUrl \<Rightarrow> RetryAtServer newUrl (s\<lparr>phase := Retrying\<rparr>)
         | FinalResponse \<Rightarrow> finish errNone s
         | ErrorNotRetryable cod \<Rightarrow> finish cod s
         | DeadlineExpired \<Rightarrow> finish errOperationExpired s
         | StreamFatal cod \<Rightarrow> finish cod s
         | Cancelled cod \<Rightarrow> finish cod s))"

text \<open>
  Modelled from the spec: "The ResponseHandler callback fires exactly once", as a
  property of a state: a request that is not terminal has not called the user, a terminal
  one has called the user once.
\<close>

definition answered_once :: "Lifecycle \<Rightarrow> bool" where
  "answered_once s =
     (if phase s = Terminal then length (responses s) = 1 else responses s = [])"


text \<open>
  Sample values for the life cycle: a handler with a redirect budget of 3 for a request
  sent to \<open>origin\<close>, and a second server.
\<close>

definition origin :: URL where
  "origin = sample_url ''origin:1094'' ''/a''"

definition host2 :: URL where
  "host2 = sample_url ''host2:1094'' ''/a''"

definition sample_handler :: XRootDMsgHandler where
  "sample_handler =
     SetRedirectCounter 3
       (XRootDMsgHandler_ctor 0 (sample_message 3010 ''/a'' 0) (Some 5) origin True None 0)"

section \<open>Properties\<close>

subsection \<open>MergeCGI\<close>

lemma map_of_assign: "map_of (assign k v m) = (map_of m)(k \<mapsto> v)"
  by (induction m) (auto simp: fun_eq_iff)

text \<open>Assignment keeps a map in the order of its keys.\<close>

lemma set_assign: "fst ` set (assign k v m) = insert k (fst ` set m)"
  by (induction m) auto

lemma sorted_assign:
  "sorted (map fst m) \<Longrightarrow> distinct (map fst m) \<Longrightarrow>
   sorted (map fst (assign k v m)) \<and> distinct (map fst (assign k v m))"
proof (induction m)
  case Nil
  then show ?case by simp
next
  case (Cons e m)
  then have ih: "sorted (map fst (assign k v m))" "distinct (map fst (assign k v m))"
    and le: "\<forall>x \<in> set m. fst e \<le> fst x" and ne: "fst e \<notin> fst ` set m"
    by auto
  show ?case
  proof (cases "k = fst e")
    case True
    with Cons.prems show ?thesis by simp
  next
    case False
    show ?thesis
    proof (cases "k < fst e")
      case True
      with Cons.prems False show ?thesis by (auto simp: less_imp_le dest: order.strict_trans2)
    next
      case ge: False
      with False have "fst e < k" by simp
      with ge False ih le ne show ?thesis
        using set_assign [of k v m] by (auto simp: less_imp_le)
    qed
  qed
qed

lemma MergeCGI_entry_sorted:
  "sorted (map fst cgi1) \<Longrightarrow> distinct (map fst cgi1) \<Longrightarrow>
   sorted (map fst (MergeCGI_entry replace cgi1 it)) \<and>
   distinct (map fst (MergeCGI_entry replace cgi1 it))"
  by (simp add: MergeCGI_entry_def sorted_assign split: option.splits)

lemma MergeCGI_sorted:
  "sorted (map fst cgi1) \<Longrightarrow> distinct (map fst cgi1) \<Longrightarrow>
   sorted (map fst (MergeCGI cgi1 cgi2 replace)) \<and>
   distinct (map fst (MergeCGI cgi1 cgi2 replace))"
  unfolding MergeCGI_def
  by (induction cgi2 arbitrary: cgi1) (simp_all add: MergeCGI_entry_sorted)

lemma MergeCGI_entry_same:
  "map_of (MergeCGI_entry replace cgi1 (k, v2)) k =
     Some (case map_of cgi1 k of
             None \<Rightarrow> v2
           | Some v1 \<Rightarrow> if replace \<or> v1 = [] then v2 else v1 @ [CHR '',''] @ v2)"
  by (simp add: MergeCGI_entry_def map_of_assign split: option.splits)

lemma MergeCGI_entry_other:
  "k \<noteq> fst it \<Longrightarrow> map_of (MergeCGI_entry replace cgi1 it) k = map_of cgi1 k"
  by (simp add: MergeCGI_entry_def map_of_assign split: option.splits)

lemma MergeCGI_absent:
  "k \<notin> fst ` set cgi2 \<Longrightarrow> map_of (MergeCGI cgi1 cgi2 replace) k = map_of cgi1 k"
  unfolding MergeCGI_def
  by (induction cgi2 arbitrary: cgi1) (simp_all add: MergeCGI_entry_other)

lemma MergeCGI_present:
  "distinct (map fst cgi2) \<Longrightarrow> (k, v2) \<in> set cgi2 \<Longrightarrow>
   map_of (MergeCGI cgi1 cgi2 replace) k =
     Some (case map_of cgi1 k of
             None \<Rightarrow> v2
           | Some v1 \<Rightarrow> if replace \<or> v1 = [] then v2 else v1 @ [CHR '',''] @ v2)"
proof (induction cgi2 arbitrary: cgi1)
  case Nil
  then show ?case by simp
next
  case (Cons it rest)
  have unfold: "MergeCGI cgi1 (it # rest) replace =
                MergeCGI (MergeCGI_entry replace cgi1 it) rest replace"
    by (simp add: MergeCGI_def)
  show ?case
  proof (cases "(k, v2) = it")
    case True
    with Cons.prems have "k \<notin> fst ` set rest" by force
    then have "map_of (MergeCGI cgi1 (it # rest) replace) k =
               map_of (MergeCGI_entry replace cgi1 it) k"
      by (simp add: unfold MergeCGI_absent)
    with True show ?thesis by (simp add: MergeCGI_entry_same [symmetric])
  next
    case False
    with Cons.prems have mem: "(k, v2) \<in> set rest" and d: "distinct (map fst rest)"
      and fresh: "fst it \<notin> fst ` set rest" by auto
    from mem have "k \<in> fst ` set rest" by force
    with fresh have ne: "k \<noteq> fst it" by blast
    from Cons.IH [OF d mem, of "MergeCGI_entry replace cgi1 it"] ne
    show ?thesis by (simp add: unfold MergeCGI_entry_other)
  qed
qed

text \<open>
  C4. For every key \<open>k\<close> of \<open>cgi2\<close> with value \<open>v2\<close>: merging with \<open>replace\<close> maps \<open>k\<close>
  to \<open>v2\<close>; merging without \<open>replace\<close> maps \<open>k\<close> to \<open>v2\<close> when \<open>cgi1\<close> has no value or
  an empty value for \<open>k\<close>, and to the value of \<open>cgi1\<close>, a comma and \<open>v2\<close> otherwise. A key
  that \<open>cgi2\<close> does not have keeps what \<open>cgi1\<close> gives it, in either mode. The keys of
  \<open>cgi2\<close>, a \<^verbatim>\<open>std::map\<close>, are distinct.
\<close>
theorem MergeCGI_result:
  assumes "distinct (map fst cgi2)"
  shows "(\<forall>(k, v2) \<in> set cgi2.
            map_of (MergeCGI cgi1 cgi2 True) k = Some v2 \<and>
            map_of (MergeCGI cgi1 cgi2 False) k =
              Some (case map_of cgi1 k of
                      None \<Rightarrow> v2
                    | Some v1 \<Rightarrow> if v1 = [] then v2 else v1 @ [CHR '',''] @ v2)) \<and>
         (\<forall>k replace. k \<notin> fst ` set cgi2 \<longrightarrow>
            map_of (MergeCGI cgi1 cgi2 replace) k = map_of cgi1 k)"
proof (intro conjI ballI allI impI)
  fix e assume e: "e \<in> set cgi2"
  obtain k v2 where kv: "e = (k, v2)" by (cases e)
  from MergeCGI_present [OF assms, of k v2 cgi1 True] e kv
  have t: "map_of (MergeCGI cgi1 cgi2 True) k = Some v2"
    by (simp split: option.splits)
  from MergeCGI_present [OF assms, of k v2 cgi1 False] e kv
  have f: "map_of (MergeCGI cgi1 cgi2 False) k =
             Some (case map_of cgi1 k of
                     None \<Rightarrow> v2
                   | Some v1 \<Rightarrow> if v1 = [] then v2 else v1 @ [CHR '',''] @ v2)"
    by (simp split: option.splits)
  from t f kv
  show "case e of (k, v2) \<Rightarrow>
          map_of (MergeCGI cgi1 cgi2 True) k = Some v2 \<and>
          map_of (MergeCGI cgi1 cgi2 False) k =
            Some (case map_of cgi1 k of
                    None \<Rightarrow> v2
                  | Some v1 \<Rightarrow> if v1 = [] then v2 else v1 @ [CHR '',''] @ v2)"
    by simp
next
  fix k replace assume "k \<notin> fst ` set cgi2"
  then show "map_of (MergeCGI cgi1 cgi2 replace) k = map_of cgi1 k"
    by (rule MergeCGI_absent)
qed

theorem MergeCGI_result_witness:
  "distinct (map fst [(''a'', ''b''), (''new'', ''n''), (''tried'', ''h2'')]) \<and>
   map_of (MergeCGI [(''tried'', ''h1''), (''a'', ''''), (''x'', ''1'')]
             [(''a'', ''b''), (''new'', ''n''), (''tried'', ''h2'')] True) ''tried'' = Some ''h2'' \<and>
   map_of (MergeCGI [(''tried'', ''h1''), (''a'', ''''), (''x'', ''1'')]
             [(''a'', ''b''), (''new'', ''n''), (''tried'', ''h2'')] False) ''tried'' = Some ''h1,h2'' \<and>
   map_of (MergeCGI [(''tried'', ''h1''), (''a'', ''''), (''x'', ''1'')]
             [(''a'', ''b''), (''new'', ''n''), (''tried'', ''h2'')] False) ''a'' = Some ''b'' \<and>
   map_of (MergeCGI [(''tried'', ''h1''), (''a'', ''''), (''x'', ''1'')]
             [(''a'', ''b''), (''new'', ''n''), (''tried'', ''h2'')] False) ''new'' = Some ''n'' \<and>
   map_of (MergeCGI [(''tried'', ''h1''), (''a'', ''''), (''x'', ''1'')]
             [(''a'', ''b''), (''new'', ''n''), (''tried'', ''h2'')] False) ''x'' = Some ''1''"
proof -
  have d: "distinct (map fst [(''a'', ''b''), (''new'', ''n''), (''tried'', ''h2'')])"
    by simp
  note r = MergeCGI_result [OF d, of "[(''tried'', ''h1''), (''a'', ''''), (''x'', ''1'')]"]
  from r d show ?thesis by simp
qed

subsection \<open>CreateXAttrVec\<close>

lemma xattr_lengths_sums:
  "xattr_lengths attrs (nlen, vlen) =
     (nlen + (\<Sum>a\<leftarrow>attrs. length (xattr_name a) + 3),
      vlen + (\<Sum>a\<leftarrow>attrs. length (xattr_value a) + 4))"
  by (induction attrs arbitrary: nlen vlen)
     (simp_all add: name_overhead_def value_overhead_def)

lemma length_resize: "length (resize n v xs) = n"
  by (simp add: resize_def)

lemma length_poke: "length (poke p bs buf) = length buf"
  by (simp add: poke_def)

lemma length_xattr_fill: "length (xattr_fill xp attrs (nvec, vvec) avec) = length avec"
  by (induction attrs arbitrary: nvec vvec avec) (simp_all add: Let_def length_poke)

lemma Status_error_not_default: "Status_ctor stError errInvalidArgs \<noteq> Status_default"
  by (simp add: Status_ctor_def Status_default_def)

text \<open>
  C9. An empty attribute vector gives success and leaves the output vector as it was.
  The call gives the error \<^verbatim>\<open>errInvalidArgs\<close> exactly when there are more than
  \<^verbatim>\<open>kXR_faMaxVars\<close> attributes, or the names with 3 bytes of overhead each take more than
  \<^verbatim>\<open>kXR_faMaxNlen\<close> bytes, or the values with 4 bytes of overhead each take more than
  \<^verbatim>\<open>kXR_faMaxVlen\<close> bytes. Otherwise it gives success, and for a non-empty input the
  output vector has exactly the length of the name vector plus that of the value vector.
\<close>
theorem CreateXAttrVec_result:
  "(attrs = [] \<longrightarrow> CreateXAttrVec xp attrs avec = (Status_default, avec)) \<and>
   (fst (CreateXAttrVec xp attrs avec) = Status_ctor stError errInvalidArgs \<longleftrightarrow>
      kXR_faMaxVars xp < length attrs \<or>
      kXR_faMaxNlen xp < (\<Sum>a\<leftarrow>attrs. length (xattr_name a) + 3) \<or>
      kXR_faMaxVlen xp < (\<Sum>a\<leftarrow>attrs. length (xattr_value a) + 4)) \<and>
   (fst (CreateXAttrVec xp attrs avec) \<noteq> Status_ctor stError errInvalidArgs \<longrightarrow>
      fst (CreateXAttrVec xp attrs avec) = Status_default \<and>
      (attrs \<noteq> [] \<longrightarrow>
         length (snd (CreateXAttrVec xp attrs avec)) =
           (\<Sum>a\<leftarrow>attrs. length (xattr_name a) + 3) +
           (\<Sum>a\<leftarrow>attrs. length (xattr_value a) + 4)))"
proof (cases "attrs = []")
  case True
  then show ?thesis
    by (simp add: CreateXAttrVec_def Status_error_not_default [symmetric])
next
  case False
  then show ?thesis
    by (simp add: CreateXAttrVec_def xattr_lengths_sums length_xattr_fill length_resize
        Status_error_not_default Status_error_not_default [symmetric])
qed

theorem CreateXAttrVec_result_witness:
  "CreateXAttrVec sample_protocol [] ''zz'' = (Status_default, ''zz'') \<and>
   fst (CreateXAttrVec sample_protocol [(''user.a'', ''v1''), (''b'', ''xyz'')] ''zz'') =
     Status_default \<and>
   length (snd (CreateXAttrVec sample_protocol [(''user.a'', ''v1''), (''b'', ''xyz'')] ''zz'')) = 26 \<and>
   fst (CreateXAttrVec sample_protocol (replicate 17 (''a'', ''b'')) []) =
     Status_ctor stError errInvalidArgs"
proof -
  note a = CreateXAttrVec_result [of "[]" sample_protocol "''zz''"]
  note b = CreateXAttrVec_result [of "[(''user.a'', ''v1''), (''b'', ''xyz'')]" sample_protocol "''zz''"]
  note c = CreateXAttrVec_result [of "replicate 17 (''a'', ''b'')" sample_protocol "[]"]
  from a have 1: "CreateXAttrVec sample_protocol [] ''zz'' = (Status_default, ''zz'')"
    by simp
  from b have 2: "fst (CreateXAttrVec sample_protocol [(''user.a'', ''v1''), (''b'', ''xyz'')] ''zz'') =
     Status_default \<and>
   length (snd (CreateXAttrVec sample_protocol [(''user.a'', ''v1''), (''b'', ''xyz'')] ''zz'')) = 26"
    by (simp add: sample_protocol_def xattr_name_def xattr_value_def)
  from c have 3: "fst (CreateXAttrVec sample_protocol (replicate 17 (''a'', ''b'')) []) =
     Status_ctor stError errInvalidArgs"
    by (simp add: sample_protocol_def)
  from 1 2 3 show ?thesis by simp
qed

subsection \<open>RewriteCGIAndPath\<close>

text \<open>
  C10. For a request that is none of \<^verbatim>\<open>kXR_chmod\<close>, \<^verbatim>\<open>kXR_mkdir\<close>, \<^verbatim>\<open>kXR_mv\<close>,
  \<^verbatim>\<open>kXR_open\<close>, \<^verbatim>\<open>kXR_rm\<close>, \<^verbatim>\<open>kXR_rmdir\<close>, \<^verbatim>\<open>kXR_stat\<close>, \<^verbatim>\<open>kXR_truncate\<close>,
  \<^verbatim>\<open>RewriteCGIAndPath\<close> returns with the header fields (\<^verbatim>\<open>dlen\<close> among them) and the
  bytes after the header unchanged, whatever the new CGI, the flag and the new path are.
\<close>
theorem RewriteCGIAndPath_other_request:
  assumes "requestid msg \<notin> {kXR_chmod xp, kXR_mkdir xp, kXR_mv xp, kXR_open xp, kXR_rm xp,
                              kXR_rmdir xp, kXR_stat xp, kXR_truncate xp}"
  shows "\<exists>m'. RewriteCGIAndPath xp tr msg newCgi replace newPath = Some m' \<and>
              streamid m' = streamid msg \<and> requestid m' = requestid msg \<and>
              reqparams m' = reqparams msg \<and> dlen m' = dlen msg \<and>
              payload m' = payload msg"
  using assms by (simp add: RewriteCGIAndPath_def path_request_def)

theorem RewriteCGIAndPath_other_request_witness:
  "requestid (sample_message 3013 ''/src/dst'' 0) \<notin>
     {kXR_chmod sample_protocol, kXR_mkdir sample_protocol, kXR_mv sample_protocol,
      kXR_open sample_protocol, kXR_rm sample_protocol, kXR_rmdir sample_protocol,
      kXR_stat sample_protocol, kXR_truncate sample_protocol} \<and>
   (\<exists>m'. RewriteCGIAndPath sample_protocol sample_transport (sample_message 3013 ''/src/dst'' 0)
            [(''tried'', ''h1'')] True ''/new'' = Some m' \<and>
          streamid m' = 0 \<and> requestid m' = 3013 \<and> dlen m' = 8 \<and> payload m' = ''/src/dst'')"
proof -
  have h: "requestid (sample_message 3013 ''/src/dst'' 0) \<notin>
     {kXR_chmod sample_protocol, kXR_mkdir sample_protocol, kXR_mv sample_protocol,
      kXR_open sample_protocol, kXR_rm sample_protocol, kXR_rmdir sample_protocol,
      kXR_stat sample_protocol, kXR_truncate sample_protocol}"
    by (simp add: sample_message_def sample_protocol_def)
  from RewriteCGIAndPath_other_request [OF h, of sample_transport "[(''tried'', ''h1'')]" True "''/new''"]
  have "\<exists>m'. RewriteCGIAndPath sample_protocol sample_transport (sample_message 3013 ''/src/dst'' 0)
            [(''tried'', ''h1'')] True ''/new'' = Some m' \<and>
          streamid m' = 0 \<and> requestid m' = 3013 \<and> dlen m' = 8 \<and> payload m' = ''/src/dst''"
    by (auto simp add: sample_message_def)
  with h show ?thesis by simp
qed

subsection \<open>MsgHandlerRef\<close>

lemma u16_of_nat_eq_0: "m < 65536 \<Longrightarrow> (word_of_nat m :: u16) = 0 \<longleftrightarrow> m = 0"
  by (auto simp: word_of_nat_eq_0_iff dest: nat_dvd_not_less)

lemma count_Self: "count c = word_of_nat n \<Longrightarrow> count (Self c) = word_of_nat (n + 1)"
  by (simp add: Self_def)

lemma count_minus_one:
  "0 < n \<Longrightarrow> count c = word_of_nat n \<Longrightarrow> count c - 1 = word_of_nat (n - 1)"
  by (cases n) simp_all

lemma Free_last: "count c = word_of_nat (Suc 0) \<Longrightarrow> Free c = None"
  by (simp add: Free_def)

lemma Free_more:
  assumes "1 < n" and "n \<le> 65536" and "count c = word_of_nat n"
  shows "\<exists>c'. Free c = Some c' \<and> count c' = word_of_nat (n - 1) \<and> ref c' = ref c"
proof -
  from assms have m: "count c - 1 = word_of_nat (n - 1)" by (simp add: count_minus_one)
  from assms have "n - 1 < 65536" and "n - 1 \<noteq> 0" by simp_all
  with u16_of_nat_eq_0 [of "n - 1"] have "(word_of_nat (n - 1) :: u16) \<noteq> 0" by blast
  with m show ?thesis by (simp add: Free_def)
qed

lemma holders_dead: "holders b 0 cs \<Longrightarrow> cs = []"
proof (cases cs)
  case Nil
  then show ?thesis by simp
next
  case (Cons a as)
  assume "holders b 0 cs"
  with Cons show ?thesis by (cases a) simp_all
qed

text \<open>
  While holders are left the cell is live, and once the pointer is null it stays null.
\<close>

lemma holders_prefix_live:
  "holders 65537 n (p @ s) \<Longrightarrow> s \<noteq> [] \<Longrightarrow> n \<le> 65536 \<Longrightarrow> count c = word_of_nat n \<Longrightarrow>
   \<exists>c'. ref_calls p (Some c) = Some (Some c') \<and>
        (CallInvalidate \<in> set p \<or> ref c = None \<longrightarrow> ref c' = None)"
proof (induction p arbitrary: n c)
  case Nil
  then show ?case by simp
next
  case (Cons a p)
  show ?case
  proof (cases a)
    case CallSelf
    with Cons.prems have h: "holders 65537 (n + 1) (p @ s)" and b: "n + 1 \<le> 65536"
      by simp_all
    from Cons.prems(4) have "count (Self c) = word_of_nat (n + 1)" by (rule count_Self)
    from Cons.IH [OF h Cons.prems(2) b this] CallSelf show ?thesis by (auto simp: Self_def)
  next
    case CallInvalidate
    with Cons.prems have h: "holders 65537 n (p @ s)" by simp
    from Cons.prems(4) have "count (Invalidate c) = word_of_nat n" by (simp add: Invalidate_def)
    from Cons.IH [OF h Cons.prems(2,3) this] CallInvalidate show ?thesis
      by (auto simp: Invalidate_def)
  next
    case CallFree
    with Cons.prems have h: "holders 65537 (n - 1) (p @ s)" and pos: "0 < n" by simp_all
    from h Cons.prems(2) have "n - 1 \<noteq> 0" by (auto dest: holders_dead)
    then have "1 < n" by simp
    from Free_more [OF this Cons.prems(3,4)] obtain c' where
      f: "Free c = Some c'" and u: "count c' = word_of_nat (n - 1)" and r: "ref c' = ref c"
      by auto
    from Cons.prems(3) have "n - 1 \<le> 65536" by simp
    from Cons.IH [OF h Cons.prems(2) this u] CallFree f r show ?thesis by auto
  qed
qed

lemma holders_all_freed:
  "holders 65537 n cs \<Longrightarrow> 0 < n \<Longrightarrow> n \<le> 65536 \<Longrightarrow> count c = word_of_nat n \<Longrightarrow>
   ref_calls cs (Some c) = Some None"
proof (induction cs arbitrary: n c)
  case Nil
  then show ?case by simp
next
  case (Cons a cs)
  show ?case
  proof (cases a)
    case CallSelf
    with Cons.prems have h: "holders 65537 (n + 1) cs" and b: "n + 1 \<le> 65536" by simp_all
    from Cons.prems(4) have "count (Self c) = word_of_nat (n + 1)" by (rule count_Self)
    from Cons.IH [OF h _ b this] CallSelf show ?thesis by simp
  next
    case CallInvalidate
    with Cons.prems have h: "holders 65537 n cs" by simp
    from Cons.prems(4) have "count (Invalidate c) = word_of_nat n" by (simp add: Invalidate_def)
    from Cons.IH [OF h Cons.prems(2,3) this] CallInvalidate show ?thesis by simp
  next
    case CallFree
    with Cons.prems have h: "holders 65537 (n - 1) cs" by simp
    show ?thesis
    proof (cases "n = 1")
      case True
      with h have "cs = []" by (auto dest: holders_dead)
      with True Cons.prems(4) CallFree show ?thesis by (simp add: Free_last)
    next
      case False
      with Cons.prems(2) have "1 < n" by simp
      from Free_more [OF this Cons.prems(3,4)] obtain c' where
        f: "Free c = Some c'" and u: "count c' = word_of_nat (n - 1)" by auto
      from \<open>1 < n\<close> Cons.prems(3) have "0 < n - 1" and "n - 1 \<le> 65536" by simp_all
      from Cons.IH [OF h this u] CallFree f show ?thesis by simp
    qed
  qed
qed

lemma ref_calls_Self_replicate:
  "ref_calls (replicate k CallSelf @ cs) (Some c) =
     ref_calls cs (Some (c\<lparr>count := count c + word_of_nat k\<rparr>))"
  by (induction k arbitrary: c) (simp_all add: Self_def ac_simps)

lemma holders_Self_replicate:
  "0 < n \<Longrightarrow> n + k < b \<Longrightarrow> holders b n (replicate k CallSelf @ cs) = holders b (n + k) cs"
  by (induction k arbitrary: n) simp_all

lemma holders_Free_replicate: "holders b k (replicate k CallFree)"
  by (induction k) simp_all

text \<open>
  C6, amended. A cell is constructed with count 1. \<^verbatim>\<open>Self\<close> adds one to the count and
  returns the cell. \<^verbatim>\<open>Invalidate\<close> sets the pointer to null and leaves the count and the
  cell in place. \<^verbatim>\<open>Free\<close> takes one from the count and deletes the cell exactly when the
  count has reached zero. Hence, as long as no more than 65536 references are
  outstanding at any time (the count is a \<^verbatim>\<open>uint16_t\<close>): when every holder has called
  \<^verbatim>\<open>Free\<close> once the cell is deleted, it is live before every call (so it is deleted once,
  by the last \<^verbatim>\<open>Free\<close>), and after \<^verbatim>\<open>Invalidate\<close> its pointer is null.
\<close>
theorem MsgHandlerRef_protocol:
  "MsgHandlerRef_ctor h = \<lparr>ref = h, count = 1\<rparr> \<and>
   ref_call CallSelf c = Some (c\<lparr>count := count c + 1\<rparr>) \<and>
   ref_call CallInvalidate c = Some (c\<lparr>ref := None\<rparr>) \<and>
   ref_call CallFree c = (if count c - 1 = 0 then None else Some (c\<lparr>count := count c - 1\<rparr>)) \<and>
   (holders 65537 1 (p @ s) \<longrightarrow>
      ref_calls (p @ s) (Some (MsgHandlerRef_ctor h)) = Some None \<and>
      (s \<noteq> [] \<longrightarrow>
         (\<exists>c'. ref_calls p (Some (MsgHandlerRef_ctor h)) = Some (Some c') \<and>
               (CallInvalidate \<in> set p \<longrightarrow> ref c' = None))))"
proof -
  have c1: "count (MsgHandlerRef_ctor h) = word_of_nat 1"
    by (simp add: MsgHandlerRef_ctor_def)
  have "ref_calls (p @ s) (Some (MsgHandlerRef_ctor h)) = Some None"
    if "holders 65537 1 (p @ s)"
    using holders_all_freed [OF that _ _ c1] by simp
  moreover have "\<exists>c'. ref_calls p (Some (MsgHandlerRef_ctor h)) = Some (Some c') \<and>
                      (CallInvalidate \<in> set p \<longrightarrow> ref c' = None)"
    if "holders 65537 1 (p @ s)" and "s \<noteq> []"
    using holders_prefix_live [OF that _ c1] by auto
  ultimately show ?thesis
    by (simp add: MsgHandlerRef_ctor_def Self_def Invalidate_def Free_def Let_def)
qed

theorem MsgHandlerRef_protocol_witness:
  "holders 65537 1 ([CallSelf, CallInvalidate, CallFree] @ [CallFree]) \<and>
   ref_calls ([CallSelf, CallInvalidate, CallFree] @ [CallFree])
     (Some (MsgHandlerRef_ctor (Some 0))) = Some None \<and>
   (\<exists>c'. ref_calls [CallSelf, CallInvalidate, CallFree] (Some (MsgHandlerRef_ctor (Some 0))) =
            Some (Some c') \<and> ref c' = None)"
proof -
  have h: "holders 65537 1 ([CallSelf, CallInvalidate, CallFree] @ [CallFree])" by simp
  from MsgHandlerRef_protocol [of "Some 0" _ "[CallSelf, CallInvalidate, CallFree]" "[CallFree]"] h
  show ?thesis by simp
qed

text \<open>
  Without the bound the conclusion fails: after 65536 calls of \<^verbatim>\<open>Self\<close> the count is 1
  again, the first \<^verbatim>\<open>Free\<close> deletes the cell, and the next holder calls a deleted cell.
\<close>

theorem MsgHandlerRef_wraps_counterexample:
  "holders 65539 1 (replicate 65536 CallSelf @ CallInvalidate # replicate 65537 CallFree) \<and>
   ref_calls (replicate 65536 CallSelf @ CallInvalidate # replicate 65537 CallFree)
     (Some (MsgHandlerRef_ctor (Some 0))) = None"
proof -
  have f: "replicate 65537 CallFree = CallFree # CallFree # replicate 65535 CallFree"
    using replicate_Suc [of 65536 CallFree] replicate_Suc [of 65535 CallFree] by simp
  have "holders 65539 1 (replicate 65536 CallSelf @ CallInvalidate # replicate 65537 CallFree)"
    using holders_Free_replicate [of 65539 65537] by (simp add: holders_Self_replicate)
  moreover have "ref_calls (replicate 65536 CallSelf @ CallInvalidate # replicate 65537 CallFree)
     (Some (MsgHandlerRef_ctor (Some 0))) = None"
    by (simp add: ref_calls_Self_replicate f MsgHandlerRef_ctor_def Invalidate_def Free_def)
  ultimately show ?thesis by simp
qed

subsection \<open>The chunk status vector\<close>

lemma resize_replicate: "resize n v (replicate k v) = replicate n v"
proof -
  have "min k n + (n - k) = n" by simp
  then show ?thesis by (simp add: resize_def replicate_add [symmetric])
qed

lemma chunks_parallel_ctor:
  "chunks_parallel (XRootDMsgHandler_ctor msg m respHandler u sidMgr lFileHandler r)"
  by (simp add: chunks_parallel_def XRootDMsgHandler_ctor_def)

lemma chunks_parallel_setter: "chunks_parallel h \<Longrightarrow> chunks_parallel (setter c h)"
  by (cases c)
     (auto simp: chunks_parallel_def SetExpiration_def SetRedirectAsAnswer_def
        SetLoadBalancer_def SetChunkList_def SetRedirectCounter_def SetFollowMetalink_def
        SetStateful_def resize_replicate split: option.splits)

lemma chunks_parallel_fold: "chunks_parallel h \<Longrightarrow> chunks_parallel (fold setter cs h)"
  by (induction cs arbitrary: h) (simp_all add: chunks_parallel_setter)

lemma nth_resize:
  "i < n \<Longrightarrow> resize n v xs ! i = (if i < length xs then xs ! i else v)"
  by (simp add: resize_def nth_append)

text \<open>
  C8, amended. After a call of \<^verbatim>\<open>SetChunkList\<close> on any handler the status vector is as
  long as the chunk list: \<open>n\<close> entries for a list of \<open>n\<close> chunks, none for the null pointer;
  every setter of the header keeps the two as long as each other. The call keeps the
  entries that the vector has and gives the entries it adds \<^verbatim>\<open>sizeError\<close> and \<^verbatim>\<open>done\<close>
  false. So every entry has both false when the entries before the call had, as on a
  handler that comes from the constructor by calls of the setters.
\<close>

theorem SetChunkList_parallel:
  "length (pChunkStatus (SetChunkList (Some cl) h)) = length cl \<and>
   pChunkStatus (SetChunkList None h) = [] \<and>
   pChunkList (SetChunkList chunks h) = chunks \<and>
   (length (pChunkStatus h) = (case pChunkList h of None \<Rightarrow> 0 | Some c \<Rightarrow> length c) \<longrightarrow>
      length (pChunkStatus (setter sc h)) =
        (case pChunkList (setter sc h) of None \<Rightarrow> 0 | Some c \<Rightarrow> length c)) \<and>
   (\<forall>i < length cl.
      pChunkStatus (SetChunkList (Some cl) h) ! i =
        (if i < length (pChunkStatus h) then pChunkStatus h ! i
         else \<lparr>sizeError = False, chunkDone = False\<rparr>)) \<and>
   ((\<forall>x \<in> set (pChunkStatus h). x = \<lparr>sizeError = False, chunkDone = False\<rparr>) \<longrightarrow>
      pChunkStatus (SetChunkList (Some cl) h) =
        replicate (length cl) \<lparr>sizeError = False, chunkDone = False\<rparr>) \<and>
   pChunkStatus (SetChunkList (Some cl)
      (fold setter cs (XRootDMsgHandler_ctor msg m respHandler u sidMgr lFileHandler r))) =
     replicate (length cl) \<lparr>sizeError = False, chunkDone = False\<rparr>"
proof -
  have size: "length (pChunkStatus (SetChunkList (Some cl) h)) = length cl"
    by (simp add: SetChunkList_def length_resize)
  have null: "pChunkStatus (SetChunkList None h) = []"
    by (simp add: SetChunkList_def)
  have list: "pChunkList (SetChunkList chunks h) = chunks"
    by (simp add: SetChunkList_def split: option.splits)
  have kept: "length (pChunkStatus (setter sc h)) =
        (case pChunkList (setter sc h) of None \<Rightarrow> 0 | Some c \<Rightarrow> length c)"
    if "length (pChunkStatus h) = (case pChunkList h of None \<Rightarrow> 0 | Some c \<Rightarrow> length c)"
    using that
    by (cases sc)
       (simp_all add: SetExpiration_def SetRedirectAsAnswer_def SetLoadBalancer_def
          SetChunkList_def SetRedirectCounter_def SetFollowMetalink_def SetStateful_def
          length_resize split: option.splits)
  have entries: "pChunkStatus (SetChunkList (Some cl) h) ! i =
        (if i < length (pChunkStatus h) then pChunkStatus h ! i
         else \<lparr>sizeError = False, chunkDone = False\<rparr>)" if "i < length cl" for i
    using that by (simp add: SetChunkList_def nth_resize ChunkStatus_ctor_def)
  have fresh: "pChunkStatus (SetChunkList (Some cl) h) =
        replicate (length cl) \<lparr>sizeError = False, chunkDone = False\<rparr>"
    if "\<forall>x \<in> set (pChunkStatus h). x = \<lparr>sizeError = False, chunkDone = False\<rparr>"
  proof -
    from that have "pChunkStatus h =
        replicate (length (pChunkStatus h)) \<lparr>sizeError = False, chunkDone = False\<rparr>"
      by (simp add: replicate_length_same)
    then have "resize (length cl) ChunkStatus_ctor (pChunkStatus h) =
        replicate (length cl) ChunkStatus_ctor"
      using resize_replicate [of "length cl" ChunkStatus_ctor "length (pChunkStatus h)"]
      by (simp add: ChunkStatus_ctor_def)
    then show ?thesis by (simp add: SetChunkList_def ChunkStatus_ctor_def)
  qed
  let ?h = "fold setter cs (XRootDMsgHandler_ctor msg m respHandler u sidMgr lFileHandler r)"
  have "chunks_parallel ?h"
    by (rule chunks_parallel_fold) (rule chunks_parallel_ctor)
  then have ctor: "pChunkStatus (SetChunkList (Some cl) ?h) =
               replicate (length cl) \<lparr>sizeError = False, chunkDone = False\<rparr>"
    by (simp add: chunks_parallel_def SetChunkList_def resize_replicate ChunkStatus_ctor_def)
  from size null list kept entries fresh ctor show ?thesis by blast
qed

theorem SetChunkList_parallel_witness:
  "(let h = sample_handler\<lparr>pChunkList := Some [\<lparr>chunkOffset = 0, chunkLength = 8, chunkBuffer = 0\<rparr>],
                            pChunkStatus := [\<lparr>sizeError = False, chunkDone = False\<rparr>]\<rparr>;
        cl = [\<lparr>chunkOffset = 0, chunkLength = 4096, chunkBuffer = 0\<rparr>,
              \<lparr>chunkOffset = 8192, chunkLength = 4096, chunkBuffer = 1\<rparr>]
    in length (pChunkStatus h) = (case pChunkList h of None \<Rightarrow> 0 | Some c \<Rightarrow> length c) \<and>
       length (pChunkStatus (setter (CallSetChunkList (Some cl)) h)) = 2 \<and>
       pChunkList (setter (CallSetChunkList (Some cl)) h) = Some cl \<and>
       (1 :: nat) < length cl \<and>
       pChunkStatus (SetChunkList (Some cl) h) ! 1 = \<lparr>sizeError = False, chunkDone = False\<rparr> \<and>
       list_all (\<lambda>x. x = \<lparr>sizeError = False, chunkDone = False\<rparr>) (pChunkStatus h) \<and>
       pChunkStatus (SetChunkList (Some cl) h) =
         [\<lparr>sizeError = False, chunkDone = False\<rparr>, \<lparr>sizeError = False, chunkDone = False\<rparr>])"
proof -
  define h where "h = sample_handler
        \<lparr>pChunkList := Some [\<lparr>chunkOffset = 0, chunkLength = 8, chunkBuffer = 0\<rparr>],
          pChunkStatus := [\<lparr>sizeError = False, chunkDone = False\<rparr>]\<rparr>"
  define cl where "cl = [\<lparr>chunkOffset = 0, chunkLength = 4096, chunkBuffer = 0\<rparr>,
                         \<lparr>chunkOffset = 8192, chunkLength = 4096, chunkBuffer = 1\<rparr>]"
  have p: "length (pChunkStatus h) = (case pChunkList h of None \<Rightarrow> 0 | Some c \<Rightarrow> length c)"
    by (simp add: h_def)
  have a: "\<forall>x \<in> set (pChunkStatus h). x = \<lparr>sizeError = False, chunkDone = False\<rparr>"
    by (simp add: h_def)
  have i: "(1 :: nat) < length cl" by (simp add: cl_def)
  note t = SetChunkList_parallel [of cl h "Some cl" "CallSetChunkList (Some cl)"]
  from t p have 1: "length (pChunkStatus (setter (CallSetChunkList (Some cl)) h)) = 2"
    and 2: "pChunkList (setter (CallSetChunkList (Some cl)) h) = Some cl"
    by (simp_all add: cl_def)
  from t i have 3: "pChunkStatus (SetChunkList (Some cl) h) ! 1 =
                      \<lparr>sizeError = False, chunkDone = False\<rparr>"
    by (simp add: h_def)
  from t a have 4: "pChunkStatus (SetChunkList (Some cl) h) =
         [\<lparr>sizeError = False, chunkDone = False\<rparr>, \<lparr>sizeError = False, chunkDone = False\<rparr>]"
    by (simp add: cl_def numeral_2_eq_2)
  from a have 5: "list_all (\<lambda>x. x = \<lparr>sizeError = False, chunkDone = False\<rparr>) (pChunkStatus h)"
    by (simp add: list_all_iff)
  from p 1 2 i 3 4 5 show ?thesis
    by (simp add: Let_def h_def cl_def)
qed

text \<open>
  The entries need not all be false after the call: an entry that a read has marked as
  done is still marked after \<^verbatim>\<open>SetChunkList\<close>, since \<^verbatim>\<open>resize\<close> keeps it.
\<close>

theorem SetChunkList_keeps_entries_counterexample:
  "pChunkStatus
     (SetChunkList (Some [\<lparr>chunkOffset = 0, chunkLength = 4096, chunkBuffer = 0\<rparr>])
        (sample_handler
           \<lparr>pChunkList := Some [\<lparr>chunkOffset = 0, chunkLength = 4096, chunkBuffer = 0\<rparr>],
             pChunkStatus := [\<lparr>sizeError = False, chunkDone = True\<rparr>]\<rparr>)) =
     [\<lparr>sizeError = False, chunkDone = True\<rparr>] \<and>
   pChunkStatus
     (SetChunkList (Some [\<lparr>chunkOffset = 0, chunkLength = 4096, chunkBuffer = 0\<rparr>])
        (sample_handler
           \<lparr>pChunkList := Some [\<lparr>chunkOffset = 0, chunkLength = 4096, chunkBuffer = 0\<rparr>],
             pChunkStatus := [\<lparr>sizeError = False, chunkDone = True\<rparr>]\<rparr>)) \<noteq>
     replicate 1 \<lparr>sizeError = False, chunkDone = False\<rparr>"
  by (simp add: SetChunkList_def resize_def)

subsection \<open>The store\<close>

lemma lookup_Some_less: "lookup hp p = Some x \<Longrightarrow> p < length hp"
  by (simp add: lookup_def split: if_splits)

lemma lookup_update:
  "p < length hp \<Longrightarrow> lookup (hp[p := x]) q = (if q = p then x else lookup hp q)"
  by (simp add: lookup_def)

lemma lookup_append_new: "lookup (hp @ [x]) (length hp) = x"
  by (simp add: lookup_def)

lemma lookup_append_None: "lookup (hp @ [None]) p = lookup hp p"
  by (simp add: lookup_def nth_append)

lemma lookup_append_old: "p < length hp \<Longrightarrow> lookup (hp @ [x]) p = lookup hp p"
  by (simp add: lookup_def nth_append)

lemma store_append_new: "store (length hp) y (hp @ [Some x]) = Some (hp @ [Some y])"
  by (simp add: store_def lookup_append_new)

lemma dealloc_append_new: "dealloc (length hp) (hp @ [Some x]) = Some (hp @ [None])"
  by (simp add: dealloc_def lookup_append_new)

lemma store_live: "lookup hp p = Some x \<Longrightarrow> store p y hp = Some (hp[p := Some y])"
  by (simp add: store_def)

lemma dealloc_live: "lookup hp p = Some x \<Longrightarrow> dealloc p hp = Some (hp[p := None])"
  by (simp add: dealloc_def)

subsection \<open>Construction and destruction of a handler\<close>

lemma new_XRootDMsgHandler_result:
  "lookup (messages w) msg = Some m \<Longrightarrow>
   new_XRootDMsgHandler msg respHandler u sidMgr lFileHandler w =
     Some (length (handlers w),
           w\<lparr>cells := cells w @ [Some (MsgHandlerRef_ctor (Some (length (handlers w))))],
             handlers := handlers w @
               [Some (XRootDMsgHandler_ctor msg m respHandler u sidMgr lFileHandler
                        (length (cells w)))]\<rparr>)"
  by (simp add: new_XRootDMsgHandler_def alloc_def)

lemma call_new:
  "handlers w = hs @ [Some h] \<Longrightarrow>
   call (length hs) f w = Some (w\<lparr>handlers := hs @ [Some (f h)]\<rparr>)"
  by (simp add: call_def lookup_append_new store_append_new)

lemma SetHostList_new:
  "handlers w = hs @ [Some h] \<Longrightarrow> pHosts h = None \<Longrightarrow>
   SetHostList l (length hs) w = Some (w\<lparr>handlers := hs @ [Some (h\<lparr>pHosts := l\<rparr>)]\<rparr>)"
  by (simp add: SetHostList_def lookup_append_new call_new)

text \<open>The fields that the destructor reads are left alone by the setters.\<close>

lemma setter_frame:
  "pRequest (setter c h) = pRequest h \<and> pResponse (setter c h) = pResponse h \<and>
   pPartialResps (setter c h) = pPartialResps h \<and> pHasSessionId (setter c h) = pHasSessionId h \<and>
   pRef (setter c h) = pRef h"
  by (cases c)
     (simp_all add: SetExpiration_def SetRedirectAsAnswer_def SetLoadBalancer_def
        SetChunkList_def SetRedirectCounter_def SetFollowMetalink_def SetStateful_def
        split: option.splits)

lemma call_frame:
  assumes "call this f w = Some w'"
  shows "messages w' = messages w \<and> cells w' = cells w \<and> hostLists w' = hostLists w \<and>
         sids w' = sids w \<and> installed w' = installed w \<and>
         (\<exists>h. lookup (handlers w) this = Some h \<and> lookup (handlers w') this = Some (f h))"
proof -
  from assms obtain h where h: "lookup (handlers w) this = Some h"
    by (auto simp: call_def split: Option.bind_splits)
  with assms have w': "w' = w\<lparr>handlers := (handlers w)[this := Some (f h)]\<rparr>"
    by (simp add: call_def store_live)
  from h have "this < length (handlers w)" by (rule lookup_Some_less)
  with w' h show ?thesis by (simp add: lookup_update)
qed

lemma call_setter_frame:
  assumes "call_setter this c w = Some w'" and "destructible this msg sess r w"
  shows "messages w' = messages w \<and> cells w' = cells w \<and> destructible this msg sess r w'"
proof (cases "\<exists>l. c = CallSetHostList l")
  case True
  then obtain l where c: "c = CallSetHostList l" by blast
  with assms(1) obtain h w1 where h: "lookup (handlers w) this = Some h"
    and w1: "(case pHosts h of None \<Rightarrow> Some w | Some l' \<Rightarrow> delete_HostList l' w) = Some w1"
    and w': "call this (\<lambda>h. h\<lparr>pHosts := l\<rparr>) w1 = Some w'"
    by (auto simp: SetHostList_def split: Option.bind_splits)
  from w1 have f1: "messages w1 = messages w \<and> cells w1 = cells w \<and> handlers w1 = handlers w"
    by (auto simp: delete_HostList_def split: option.splits)
  from call_frame [OF w'] f1 assms(2) show ?thesis
    by (auto simp: destructible_def)
next
  case False
  with assms(1) have "call this (setter c) w = Some w'" by (cases c) simp_all
  from call_frame [OF this] assms(2) show ?thesis
    by (auto simp: destructible_def setter_frame)
qed

lemma call_setters_frame:
  "call_setters this cs w = Some w' \<Longrightarrow> destructible this msg sess r w \<Longrightarrow>
   messages w' = messages w \<and> cells w' = cells w \<and> destructible this msg sess r w'"
proof (induction cs arbitrary: w)
  case Nil
  then show ?case by simp
next
  case (Cons c cs)
  from Cons.prems(1) obtain w1 where c: "call_setter this c w = Some w1"
    and cs: "call_setters this cs w1 = Some w'"
    by (auto split: Option.bind_splits)
  from call_setter_frame [OF c Cons.prems(2)] Cons.IH [OF cs] show ?case by simp
qed

text \<open>
  The destructor of a handler that holds the only reference to its cell and has no
  response: the cell goes, the request goes unless it carries a session id, the rest of
  the store stays.
\<close>

lemma delete_XRootDMsgHandler_result:
  assumes d: "destructible this msg sess r w"
    and c: "lookup (cells w) r = Some (MsgHandlerRef_ctor x)"
    and m: "lookup (messages w) msg = Some m"
  shows "delete_XRootDMsgHandler this w =
           Some (w\<lparr>cells := (cells w)[r := None],
                   messages := (if sess then messages w else (messages w)[msg := None]),
                   handlers := (handlers w)[this := None]\<rparr>)"
proof -
  from d obtain h where h: "lookup (handlers w) this = Some h" "pRequest h = msg"
    "pResponse h = None" "pPartialResps h = []" "pHasSessionId h = sess" "pRef h = r"
    by (auto simp: destructible_def)
  have free: "Free (MsgHandlerRef_ctor x) = None"
    by (simp add: Free_def MsgHandlerRef_ctor_def)
  from h c m free have "XRootDMsgHandler_dtor h w =
      Some (w\<lparr>cells := (cells w)[r := None],
              messages := (if sess then messages w else (messages w)[msg := None])\<rparr>)"
    by (simp add: XRootDMsgHandler_dtor_def Free_at_def delete_Message_def dealloc_live)
  with h(1) show ?thesis
    by (simp add: delete_XRootDMsgHandler_def dealloc_live)
qed

text \<open>
  C5. Let a handler be constructed for the request \<open>msg\<close> and let any of its setters be
  called. Its destruction frees the request exactly when the request carried no session
  id when the handler was constructed; when it carried one, the messages in the store are
  what they were. No other message is touched.
\<close>
theorem destructor_frees_request:
  assumes "lookup (messages w) msg = Some m"
    and "new_XRootDMsgHandler msg respHandler u sidMgr lFileHandler w = Some (this, w1)"
    and "call_setters this cs w1 = Some w2"
  shows "\<exists>w3. delete_XRootDMsgHandler this w2 = Some w3 \<and>
              (lookup (messages w3) msg = None \<longleftrightarrow> sessionId m = 0) \<and>
              (sessionId m \<noteq> 0 \<longrightarrow> messages w3 = messages w) \<and>
              (\<forall>p. p \<noteq> msg \<longrightarrow> lookup (messages w3) p = lookup (messages w) p)"
proof -
  let ?r = "length (cells w)"
  from assms(1,2) have t: "this = length (handlers w)"
    and w1: "w1 = w\<lparr>cells := cells w @ [Some (MsgHandlerRef_ctor (Some (length (handlers w))))],
             handlers := handlers w @
               [Some (XRootDMsgHandler_ctor msg m respHandler u sidMgr lFileHandler ?r)]\<rparr>"
    by (auto simp add: new_XRootDMsgHandler_result)
  have d1: "destructible this msg (sessionId m \<noteq> 0) ?r w1"
    by (simp add: destructible_def t w1 lookup_append_new XRootDMsgHandler_ctor_def)
  from call_setters_frame [OF assms(3) d1]
  have f: "messages w2 = messages w1" "cells w2 = cells w1"
    and d2: "destructible this msg (sessionId m \<noteq> 0) ?r w2" by simp_all
  from f w1 have c2: "lookup (cells w2) ?r = Some (MsgHandlerRef_ctor (Some (length (handlers w))))"
    and m2: "lookup (messages w2) msg = Some m" and mm: "messages w2 = messages w"
    using assms(1) by (simp_all add: lookup_append_new)
  from assms(1) have "msg < length (messages w)" by (rule lookup_Some_less)
  with delete_XRootDMsgHandler_result [OF d2 c2 m2] mm assms(1) show ?thesis
    by (simp add: lookup_update)
qed

theorem destructor_frees_request_witness:
  "(let M = sample_message 3010 ''/a'' 9;
        U = sample_url ''origin:1094'' ''/a'';
        W = sample_world Status_default 9;
        W1 = W\<lparr>cells := [Some (MsgHandlerRef_ctor (Some 0))],
               handlers := [Some (XRootDMsgHandler_ctor 0 M None U True None 0)]\<rparr>;
        W2 = W1\<lparr>handlers := [Some (SetChunkList None (SetRedirectCounter 3
                                  (XRootDMsgHandler_ctor 0 M None U True None 0)))]\<rparr>
    in lookup (messages W) 0 = Some M \<and>
       new_XRootDMsgHandler 0 None U True None W = Some (0, W1) \<and>
       call_setters 0 [CallSetRedirectCounter 3, CallSetChunkList None] W1 = Some W2 \<and>
       (\<exists>w3. delete_XRootDMsgHandler 0 W2 = Some w3 \<and> lookup (messages w3) 0 = Some M \<and>
             messages w3 = messages W))"
proof -
  define M where "M = sample_message 3010 ''/a'' 9"
  define U where "U = sample_url ''origin:1094'' ''/a''"
  define W where "W = sample_world Status_default 9"
  define W1 where "W1 = W\<lparr>cells := [Some (MsgHandlerRef_ctor (Some 0))],
               handlers := [Some (XRootDMsgHandler_ctor 0 M None U True None 0)]\<rparr>"
  define W2 where "W2 = W1\<lparr>handlers := [Some (SetChunkList None (SetRedirectCounter 3
                                  (XRootDMsgHandler_ctor 0 M None U True None 0)))]\<rparr>"
  have h1: "lookup (messages W) 0 = Some M"
    by (simp add: W_def M_def sample_world_def lookup_def)
  have h2: "new_XRootDMsgHandler 0 None U True None W = Some (0, W1)"
    using new_XRootDMsgHandler_result [OF h1, of None U True None]
    by (simp add: W1_def) (simp add: W_def sample_world_def)
  have h3: "call_setters 0 [CallSetRedirectCounter 3, CallSetChunkList None] W1 = Some W2"
    by (simp add: W2_def W1_def call_def lookup_def store_def)
  have s: "sessionId M = 9" by (simp add: M_def sample_message_def)
  from destructor_frees_request [OF h1 h2 h3] s h1
  have "\<exists>w3. delete_XRootDMsgHandler 0 W2 = Some w3 \<and> lookup (messages w3) 0 = Some M \<and>
             messages w3 = messages W"
    by auto
  with h1 h2 h3 show ?thesis
    by (simp add: Let_def M_def U_def W_def W1_def W2_def)
qed

subsection \<open>SendMessage\<close>

text \<open>The handler that \<^verbatim>\<open>SendMessage\<close> has set up when it calls \<^verbatim>\<open>Send\<close>.\<close>

lemma SetLoadBalancer_invalid: "\<not> valid (hostUrl lb) \<Longrightarrow> SetLoadBalancer lb h = h"
  by (simp add: SetLoadBalancer_def)

lemma pHosts_fold_setter:
  "\<forall>c \<in> set cs. \<forall>l. c \<noteq> CallSetHostList l \<Longrightarrow> pHosts (fold setter cs h) = pHosts h"
proof (induction cs arbitrary: h)
  case Nil
  then show ?case by simp
next
  case (Cons c cs)
  then have "pHosts (setter c h) = pHosts h"
    by (cases c)
       (simp_all add: SetExpiration_def SetRedirectAsAnswer_def SetLoadBalancer_def
          SetChunkList_def SetRedirectCounter_def SetFollowMetalink_def SetStateful_def
          split: option.splits)
  with Cons show ?case by simp
qed

lemma setup_handler_result:
  assumes "lookup (messages w) msg = Some m"
  shows "setup_handler u msg handler sendParams lFileHandler w =
     Some (length (handlers w), length (hostLists w),
           w\<lparr>cells := cells w @ [Some (MsgHandlerRef_ctor (Some (length (handlers w))))],
             hostLists := hostLists w @ [Some [HostInfo_ctor u False]],
             handlers := handlers w @
               [Some (fold setter
                        [CallSetExpiration (expires sendParams),
                         CallSetRedirectAsAnswer (\<not> followRedirects sendParams),
                         CallSetChunkList (chunkList sendParams),
                         CallSetRedirectCounter (redirectLimit sendParams),
                         CallSetStateful (stateful sendParams),
                         CallSetLoadBalancer (lbInfo sendParams),
                         CallSetHostList (Some (length (hostLists w)))]
                        (XRootDMsgHandler_ctor msg m handler u True lFileHandler
                           (length (cells w))))]\<rparr>)"
proof -
  let ?h0 = "XRootDMsgHandler_ctor msg m handler u True lFileHandler (length (cells w))"
  let ?cs = "[CallSetExpiration (expires sendParams),
              CallSetRedirectAsAnswer (\<not> followRedirects sendParams),
              CallSetChunkList (chunkList sendParams),
              CallSetRedirectCounter (redirectLimit sendParams),
              CallSetStateful (stateful sendParams),
              CallSetLoadBalancer (lbInfo sendParams)]"
  have "pHosts (fold setter ?cs ?h0) = pHosts ?h0"
    by (rule pHosts_fold_setter) simp
  then have nohosts: "pHosts (SetLoadBalancer (lbInfo sendParams)
       (SetStateful (stateful sendParams) (SetRedirectCounter (redirectLimit sendParams)
         (SetChunkList (chunkList sendParams)
           (SetRedirectAsAnswer (\<not> followRedirects sendParams)
             (SetExpiration (expires sendParams) ?h0)))))) = None"
    by (simp add: XRootDMsgHandler_ctor_def)
  show ?thesis
  proof (cases "valid (hostUrl (lbInfo sendParams))")
    case True
    with assms nohosts show ?thesis
      by (simp add: setup_handler_def new_XRootDMsgHandler_def alloc_def call_def
          SetHostList_def new_HostList_def push_back_def lookup_append_new store_append_new)
  next
    case False
    with assms nohosts show ?thesis
      by (simp add: setup_handler_def new_XRootDMsgHandler_def alloc_def call_def
          SetHostList_def new_HostList_def push_back_def lookup_append_new store_append_new
          SetLoadBalancer_invalid)
  qed
qed


lemma fold_setter_frame:
  "pRequest (fold setter cs h) = pRequest h \<and> pResponse (fold setter cs h) = pResponse h \<and>
   pPartialResps (fold setter cs h) = pPartialResps h \<and>
   pHasSessionId (fold setter cs h) = pHasSessionId h \<and> pRef (fold setter cs h) = pRef h"
  by (induction cs arbitrary: h) (simp_all add: setter_frame)

lemma destructible_setup:
  "handlers w = hs @ [Some (fold setter cs (XRootDMsgHandler_ctor msg m rh u sm lfh r))] \<Longrightarrow>
   destructible (length hs) msg (sessionId m \<noteq> 0) r w"
  by (simp add: destructible_def lookup_append_new fold_setter_frame XRootDMsgHandler_ctor_def)

text \<open>
  C2. When \<^verbatim>\<open>SendMessage\<close> has allocated the stream id \<open>sid\<close> and \<^verbatim>\<open>Send\<close> fails, it
  returns the status of \<^verbatim>\<open>Send\<close>; the stream id is released (the allocated ids are those
  from before the call, \<open>sid\<close> not among them); no handler is installed; the handler, its
  reference cell and the host list are deleted (the live objects of the three heaps are
  those from before the call); the request is unmarshalled, and it is deleted with the
  handler unless it carries a session id. The two functions of the transport, which are
  parameters, are taken to leave the stream id of the header in place.
\<close>
theorem SendMessage_failed_send:
  assumes pm: "postMaster w = Some pm"
    and m: "lookup (messages w) msg = Some m"
    and qt: "IsOK (QueryTransport pm u)"
    and sid: "AllocateSID pm (sids w) = (st, sid)" "IsOK st"
    and req: "req = MarshallRequest tr (m\<lparr>streamid := sid\<rparr>)"
    and send: "\<not> IsOK (Send pm u req (length (handlers w)) (stateful sendParams)
                          (expires sendParams))"
    and keep: "streamid (UnMarshallRequest tr req) = sid"
  shows "\<exists>w'. SendMessage tr u msg handler sendParams lFileHandler w =
                 Some (Send pm u req (length (handlers w)) (stateful sendParams)
                         (expires sendParams), w') \<and>
              sids w' = sids w - {sid} \<and> sid \<notin> sids w' \<and>
              installed w' = installed w \<and>
              (\<forall>p. lookup (handlers w') p = lookup (handlers w) p) \<and>
              (\<forall>p. lookup (cells w') p = lookup (cells w) p) \<and>
              (\<forall>p. lookup (hostLists w') p = lookup (hostLists w) p) \<and>
              lookup (messages w') msg =
                (if sessionId req = 0 then None else Some (UnMarshallRequest tr req)) \<and>
              (\<forall>p. p \<noteq> msg \<longrightarrow> lookup (messages w') p = lookup (messages w) p)"
proof -
  let ?cs = "[CallSetExpiration (expires sendParams),
              CallSetRedirectAsAnswer (\<not> followRedirects sendParams),
              CallSetChunkList (chunkList sendParams),
              CallSetRedirectCounter (redirectLimit sendParams),
              CallSetStateful (stateful sendParams),
              CallSetLoadBalancer (lbInfo sendParams),
              CallSetHostList (Some (length (hostLists w)))]"
  let ?hp = "length (handlers w)" and ?r = "length (cells w)" and ?l = "length (hostLists w)"
  let ?h0 = "XRootDMsgHandler_ctor msg req handler u True lFileHandler ?r"
  define w1 where "w1 = w\<lparr>sids := insert sid (sids w), messages := (messages w)[msg := Some req]\<rparr>"
  define w2 where "w2 = w1\<lparr>cells := cells w @ [Some (MsgHandlerRef_ctor (Some ?hp))],
                         hostLists := hostLists w @ [Some [HostInfo_ctor u False]],
                         handlers := handlers w @ [Some (fold setter ?cs ?h0)]\<rparr>"
  define w3 where "w3 = ReleaseSID sid (w2\<lparr>messages := (messages w)[msg := Some (UnMarshallRequest tr req)]\<rparr>)"
  define w4 where "w4 = w3\<lparr>cells := cells w @ [None],
      messages := (if sessionId req \<noteq> 0 then messages w3 else (messages w3)[msg := None]),
      handlers := handlers w @ [None]\<rparr>"
  from m have less: "msg < length (messages w)" by (rule lookup_Some_less)
  have put: "put_Message msg req (w\<lparr>sids := insert sid (sids w)\<rparr>) = Some w1"
    using m by (simp add: put_Message_def store_live w1_def)
  have m1: "lookup (messages w1) msg = Some req"
    using less by (simp add: w1_def lookup_update)
  have hsetup: "setup_handler u msg handler sendParams lFileHandler w1 = Some (?hp, ?l, w2)"
    using setup_handler_result [OF m1, of u handler sendParams lFileHandler]
    by (simp add: w2_def) (simp add: w1_def)
  have m2: "lookup (messages w2) msg = Some req"
    using m1 by (simp add: w2_def)
  have unm: "put_Message msg (UnMarshallRequest tr req) w2 =
               Some (w2\<lparr>messages := (messages w)[msg := Some (UnMarshallRequest tr req)]\<rparr>)"
    using m2 by (simp add: put_Message_def store_live) (simp add: w2_def w1_def)
  have m3: "lookup (messages w3) msg = Some (UnMarshallRequest tr req)"
    using less by (simp add: w3_def ReleaseSID_def lookup_update)
  have "handlers w3 = handlers w @ [Some (fold setter ?cs ?h0)]"
    by (simp add: w3_def w2_def ReleaseSID_def)
  then have d3: "destructible ?hp msg (sessionId req \<noteq> 0) ?r w3"
    by (rule destructible_setup)
  have c3: "lookup (cells w3) ?r = Some (MsgHandlerRef_ctor (Some ?hp))"
    by (simp add: w3_def w2_def ReleaseSID_def lookup_append_new)
  have del: "delete_XRootDMsgHandler ?hp w3 = Some w4"
    using delete_XRootDMsgHandler_result [OF d3 c3 m3]
    by (simp add: w4_def) (simp add: w3_def w2_def ReleaseSID_def)
  have dl: "delete_HostList ?l w4 = Some (w4\<lparr>hostLists := hostLists w @ [None]\<rparr>)"
    by (simp add: delete_HostList_def w4_def w3_def w2_def ReleaseSID_def dealloc_append_new)
  have failed: "send_failed tr msg ?hp ?l w2 = Some (w4\<lparr>hostLists := hostLists w @ [None]\<rparr>)"
    using m2 unm m3 keep del dl by (simp add: send_failed_def w3_def ReleaseSID_def)
  have result: "SendMessage tr u msg handler sendParams lFileHandler w =
      Some (Send pm u req (length (handlers w)) (stateful sendParams) (expires sendParams),
            w4\<lparr>hostLists := hostLists w @ [None]\<rparr>)"
    using pm m qt sid req put hsetup m2 send failed by (simp add: SendMessage_def)
  have "sids (w4\<lparr>hostLists := hostLists w @ [None]\<rparr>) = sids w - {sid}"
    by (simp add: w4_def w3_def w2_def w1_def ReleaseSID_def)
  moreover have "installed (w4\<lparr>hostLists := hostLists w @ [None]\<rparr>) = installed w"
    by (simp add: w4_def w3_def w2_def w1_def ReleaseSID_def)
  moreover have "lookup (messages (w4\<lparr>hostLists := hostLists w @ [None]\<rparr>)) p =
      (if p = msg then (if sessionId req = 0 then None else Some (UnMarshallRequest tr req))
       else lookup (messages w) p)" for p
    using less by (simp add: w4_def w3_def w2_def w1_def ReleaseSID_def lookup_update)
  moreover have "handlers (w4\<lparr>hostLists := hostLists w @ [None]\<rparr>) = handlers w @ [None]"
    and "cells (w4\<lparr>hostLists := hostLists w @ [None]\<rparr>) = cells w @ [None]"
    by (simp_all add: w4_def)
  ultimately show ?thesis
    using result by (simp add: lookup_append_None)
qed


theorem SendMessage_failed_send_witness:
  "(let bad = Status_ctor stError (errOther 1);
        W = sample_world bad 9;
        U = sample_url ''origin:1094'' ''/a'';
        M = sample_message 3010 ''/a'' 9;
        R = MarshallRequest sample_transport (M\<lparr>streamid := 7\<rparr>)
    in postMaster W = Some (sample_postMaster bad) \<and>
       lookup (messages W) 0 = Some M \<and>
       IsOK (QueryTransport (sample_postMaster bad) U) \<and>
       AllocateSID (sample_postMaster bad) (sids W) = (Status_default, 7) \<and>
       IsOK Status_default \<and>
       \<not> IsOK (Send (sample_postMaster bad) U R (length (handlers W)) (stateful sample_params)
                 (expires sample_params)) \<and>
       streamid (UnMarshallRequest sample_transport R) = 7 \<and>
       (\<exists>w'. SendMessage sample_transport U 0 (Some 5) sample_params None W = Some (bad, w') \<and>
             sids w' = {1, 2} \<and> installed w' = [] \<and> lookup (handlers w') 0 = None \<and>
             lookup (cells w') 0 = None \<and> lookup (hostLists w') 0 = None \<and>
             lookup (messages w') 0 = Some (M\<lparr>streamid := 7\<rparr>)))"
proof -
  define bad where "bad = Status_ctor stError (errOther 1)"
  define W where "W = sample_world bad 9"
  define U where "U = sample_url ''origin:1094'' ''/a''"
  define M where "M = sample_message 3010 ''/a'' 9"
  define R where "R = MarshallRequest sample_transport (M\<lparr>streamid := 7\<rparr>)"
  have h1: "postMaster W = Some (sample_postMaster bad)"
    by (simp add: W_def sample_world_def)
  have h2: "lookup (messages W) 0 = Some M"
    by (simp add: W_def M_def sample_world_def lookup_def)
  have h3: "IsOK (QueryTransport (sample_postMaster bad) U)"
    by (simp add: sample_postMaster_def IsOK_def Status_default_def Status_ctor_def)
  have h4: "AllocateSID (sample_postMaster bad) (sids W) = (Status_default, 7)"
    by (simp add: sample_postMaster_def)
  have h5: "IsOK Status_default"
    by (simp add: IsOK_def Status_default_def Status_ctor_def)
  have h6: "\<not> IsOK (Send (sample_postMaster bad) U R (length (handlers W)) (stateful sample_params)
                 (expires sample_params))"
    by (simp add: sample_postMaster_def bad_def IsOK_def Status_ctor_def)
  have h7: "streamid (UnMarshallRequest sample_transport R) = 7"
    by (simp add: R_def sample_transport_def)
  have sw: "swap16 (swap16 3010) = 3010" by (simp add: swap16_def)
  have un: "UnMarshallRequest sample_transport R = M\<lparr>streamid := 7\<rparr>"
    by (simp add: R_def M_def sample_transport_def sample_message_def sw)
  have se: "sessionId R = 9" by (simp add: R_def M_def sample_transport_def sample_message_def)
  have e: "lookup ([] :: 'a heap) 0 = None" by (simp add: lookup_def)
  from SendMessage_failed_send [OF h1 h2 h3 h4 h5 R_def h6 h7, of "Some 5" None]
  have "\<exists>w'. SendMessage sample_transport U 0 (Some 5) sample_params None W = Some (bad, w') \<and>
             sids w' = {1, 2} \<and> installed w' = [] \<and> lookup (handlers w') 0 = None \<and>
             lookup (cells w') 0 = None \<and> lookup (hostLists w') 0 = None \<and>
             lookup (messages w') 0 = Some (M\<lparr>streamid := 7\<rparr>)"
    by (auto simp: un se e W_def sample_world_def sample_postMaster_def)
  with h1 h2 h3 h4 h5 h6 h7 show ?thesis
    by (simp add: Let_def bad_def W_def U_def M_def R_def)
qed

subsection \<open>The life cycle of a request\<close>

lemma step_Terminal: "phase s = Terminal \<Longrightarrow> step e s = s"
  by simp

lemma fold_step_Terminal: "phase s = Terminal \<Longrightarrow> fold step es s = s"
  by (induction es) simp_all

lemma phase_finish: "phase (finish cod s) = Terminal"
  by (simp add: finish_def)

lemma step_terminal_event:
  "terminal_event e \<Longrightarrow> phase s \<noteq> Terminal \<Longrightarrow> \<exists>cod. step e s = finish cod s"
  by (cases e) auto

text \<open>
  Either the request is pending and the user has not been called, or it is terminal and
  the user has been called once.
\<close>

lemma answered_once_sent: "answered_once (sent h hl)"
  by (simp add: answered_once_def sent_def)

lemma answered_once_finish:
  "answered_once s \<Longrightarrow> phase s \<noteq> Terminal \<Longrightarrow> answered_once (finish cod s)"
  by (simp add: answered_once_def finish_def)

lemma answered_once_step: "answered_once s \<Longrightarrow> answered_once (step e s)"
proof (cases "phase s = Terminal")
  case True
  assume "answered_once s"
  with True show ?thesis by simp
next
  case False
  assume a: "answered_once s"
  from a False have f: "answered_once (finish cod s)" for cod
    by (rule answered_once_finish)
  from a False have t: "answered_once (RetryAtServer newUrl (s\<lparr>phase := p\<rparr>))"
    if "p \<noteq> Terminal" for newUrl p
    using that by (simp add: answered_once_def RetryAtServer_def)
  from a False have r: "answered_once (follow_redirect newUrl s)" for newUrl
    by (simp add: answered_once_def follow_redirect_def RetryAtServer_def Let_def)
  from a False have "answered_once
      (finish cod (s\<lparr>hstate := (hstate s)\<lparr>pRedirectCounter := pRedirectCounter (hstate s) - 1\<rparr>\<rparr>))"
    for cod
    by (simp add: answered_once_def finish_def)
  with r have l: "answered_once (local_redirect newUrl cod s)"
    and ra: "answered_once (redirect_as_answer s)" for newUrl cod
    by (simp_all add: local_redirect_def redirect_as_answer_def)
  from False f r l ra t [of InFlight] t [of Retrying] show ?thesis
    by (cases e) (use a in \<open>simp_all add: answered_once_def\<close>)
qed

lemma answered_once_fold: "answered_once s \<Longrightarrow> answered_once (fold step es s)"
  by (induction es arbitrary: s) (simp_all add: answered_once_step del: step.simps)

lemma terminal_event_fold:
  "\<exists>e \<in> set es. terminal_event e \<Longrightarrow> phase (fold step es s) = Terminal"
proof (induction es arbitrary: s)
  case Nil
  then show ?case by simp
next
  case (Cons e es)
  show ?case
  proof (cases "phase (step e s) = Terminal")
    case True
    then show ?thesis by (simp add: fold_step_Terminal del: step.simps)
  next
    case False
    then have pending: "phase s \<noteq> Terminal" by auto
    have "\<not> terminal_event e"
    proof
      assume "terminal_event e"
      from step_terminal_event [OF this pending] False show False
        by (auto simp: phase_finish simp del: step.simps)
    qed
    with Cons.prems have "\<exists>e \<in> set es. terminal_event e" by simp
    from Cons.IH [OF this] show ?thesis by (simp del: step.simps)
  qed
qed

text \<open>
  C1. For every request that has been sent and every sequence of events, the user's
  \<^verbatim>\<open>ResponseHandler\<close> is invoked at most once; it has been invoked once exactly when the
  handler is terminal; and when the sequence holds a final response, a terminal error, the
  expiry of the deadline, a fatal stream error or a cancellation, it has been invoked
  exactly once.
\<close>
theorem ResponseHandler_called_once:
  "length (responses (fold step es (sent h hl))) \<le> 1 \<and>
   (length (responses (fold step es (sent h hl))) = 1 \<longleftrightarrow>
      phase (fold step es (sent h hl)) = Terminal) \<and>
   ((\<exists>e \<in> set es. terminal_event e) \<longrightarrow>
      length (responses (fold step es (sent h hl))) = 1)"
proof -
  have a: "answered_once (fold step es (sent h hl))"
    by (rule answered_once_fold) (rule answered_once_sent)
  then have "length (responses (fold step es (sent h hl))) \<le> 1"
    and iff: "length (responses (fold step es (sent h hl))) = 1 \<longleftrightarrow>
              phase (fold step es (sent h hl)) = Terminal"
    by (auto simp: answered_once_def split: if_splits)
  moreover have "length (responses (fold step es (sent h hl))) = 1"
    if "\<exists>e \<in> set es. terminal_event e"
    using terminal_event_fold [OF that] iff by simp
  ultimately show ?thesis by blast
qed


theorem ResponseHandler_called_once_witness:
  "(\<exists>e \<in> set [OkSoFar, Redirect host2, SendSucceeded, DeadlineExpired, FinalResponse].
      terminal_event e) \<and>
   length (responses (fold step [OkSoFar, Redirect host2, SendSucceeded, DeadlineExpired, FinalResponse]
                        (sent sample_handler [HostInfo_ctor origin False]))) = 1 \<and>
   responses (fold step [OkSoFar, Redirect host2, SendSucceeded, DeadlineExpired, FinalResponse]
                (sent sample_handler [HostInfo_ctor origin False])) =
     [(errOperationExpired, [HostInfo_ctor origin False, HostInfo_ctor host2 False])]"
proof -
  have t: "\<exists>e \<in> set [OkSoFar, Redirect host2, SendSucceeded, DeadlineExpired, FinalResponse].
             terminal_event e"
    by simp
  from ResponseHandler_called_once
         [of "[OkSoFar, Redirect host2, SendSucceeded, DeadlineExpired, FinalResponse]"
             sample_handler "[HostInfo_ctor origin False]"] t
  have "length (responses (fold step [OkSoFar, Redirect host2, SendSucceeded, DeadlineExpired, FinalResponse]
                        (sent sample_handler [HostInfo_ctor origin False]))) = 1"
    by blast
  moreover have "responses (fold step [OkSoFar, Redirect host2, SendSucceeded, DeadlineExpired, FinalResponse]
                (sent sample_handler [HostInfo_ctor origin False])) =
     [(errOperationExpired, [HostInfo_ctor origin False, HostInfo_ctor host2 False])]"
    by (simp add: sent_def sample_handler_def SetRedirectCounter_def XRootDMsgHandler_ctor_def
        follow_redirect_def RetryAtServer_def finish_def Let_def)
  ultimately show ?thesis using t by blast
qed

subsection \<open>The redirect counter\<close>

lemma unat_pred: "(x :: u16) \<noteq> 0 \<Longrightarrow> unat (x - 1) = unat x - 1 \<and> unat (x - 1) < unat x"
proof -
  assume nz: "x \<noteq> 0"
  then have "unat (x - 1) = unat x - 1" by (rule unat_minus_one)
  moreover from nz have "0 < unat x" by (simp add: unat_gt_0)
  ultimately show ?thesis by simp
qed

lemma counter_finish: "pRedirectCounter (hstate (finish cod s)) = pRedirectCounter (hstate s)"
  by (simp add: finish_def)

lemma counter_RetryAtServer:
  "pRedirectCounter (hstate (RetryAtServer newUrl s)) = pRedirectCounter (hstate s)"
  by (simp add: RetryAtServer_def)

lemma counter_follow_redirect:
  "pRedirectCounter (hstate (follow_redirect newUrl s)) = pRedirectCounter (hstate s) - 1"
  by (simp add: follow_redirect_def RetryAtServer_def Let_def)

lemma counter_redirect_as_answer:
  "pRedirectCounter (hstate (redirect_as_answer s)) = pRedirectCounter (hstate s) - 1"
  by (simp add: redirect_as_answer_def finish_def)

lemma counter_local_redirect:
  "pRedirectCounter (hstate (local_redirect newUrl cod s)) = pRedirectCounter (hstate s) - 1"
  by (simp add: local_redirect_def counter_follow_redirect finish_def)

lemma counter_step_le:
  "unat (pRedirectCounter (hstate (step e s))) \<le> unat (pRedirectCounter (hstate s))"
proof (cases "phase s = Terminal")
  case True
  then show ?thesis by simp
next
  case False
  have "unat (pRedirectCounter (hstate s) - 1) \<le> unat (pRedirectCounter (hstate s))"
    if "pRedirectCounter (hstate s) \<noteq> 0"
    using unat_pred [OF that] by simp
  with False show ?thesis
    by (cases e)
       (simp_all add: counter_finish counter_follow_redirect counter_local_redirect
          counter_redirect_as_answer counter_RetryAtServer)
qed

lemma counter_fold_le:
  "unat (pRedirectCounter (hstate (fold step es s))) \<le> unat (pRedirectCounter (hstate s))"
proof (induction es arbitrary: s)
  case Nil
  then show ?case by simp
next
  case (Cons e es)
  have "unat (pRedirectCounter (hstate (fold step es (step e s)))) \<le>
        unat (pRedirectCounter (hstate (step e s)))"
    by (rule Cons.IH)
  also have "\<dots> \<le> unat (pRedirectCounter (hstate s))" by (rule counter_step_le)
  finally show ?case by (simp del: step.simps)
qed

text \<open>
  C3. \<^verbatim>\<open>SetRedirectCounter\<close> sets the counter. A redirect that arrives with the counter at
  zero takes the handler to the terminal error \<^verbatim>\<open>errRedirectLimit\<close>: the user is called
  with it, the host list is not extended, nothing is sent. A redirect that arrives with
  the counter above zero takes exactly one from it, without wrapping around, and a
  redirect to a server is followed (or, for a handler that takes the redirect as the
  answer, ends the request). Over any sequence of events the counter never grows.
\<close>
theorem redirect_counter_decreases:
  "pRedirectCounter (SetRedirectCounter n h) = n \<and>
   (phase s \<noteq> Terminal \<and> pRedirectCounter (hstate s) = 0 \<longrightarrow>
      step (Redirect newUrl) s = finish errRedirectLimit s \<and>
      step (LocalRedirect newUrl cod) s = finish errRedirectLimit s \<and>
      phase (finish errRedirectLimit s) = Terminal \<and>
      responses (finish errRedirectLimit s) = responses s @ [(errRedirectLimit, hosts s)] \<and>
      hosts (finish errRedirectLimit s) = hosts s \<and>
      hstate (finish errRedirectLimit s) = hstate s) \<and>
   (phase s \<noteq> Terminal \<and> pRedirectCounter (hstate s) \<noteq> 0 \<longrightarrow>
      unat (pRedirectCounter (hstate (step (Redirect newUrl) s))) =
        unat (pRedirectCounter (hstate s)) - 1 \<and>
      unat (pRedirectCounter (hstate (step (Redirect newUrl) s))) <
        unat (pRedirectCounter (hstate s)) \<and>
      phase (step (Redirect newUrl) s) =
        (if pRedirectAsAnswer (hstate s) then Terminal else Redirecting) \<and>
      unat (pRedirectCounter (hstate (step (LocalRedirect newUrl cod) s))) =
        unat (pRedirectCounter (hstate s)) - 1 \<and>
      unat (pRedirectCounter (hstate (step (LocalRedirect newUrl cod) s))) <
        unat (pRedirectCounter (hstate s))) \<and>
   unat (pRedirectCounter (hstate (fold step es s))) \<le> unat (pRedirectCounter (hstate s))"
proof -
  have "pRedirectCounter (SetRedirectCounter n h) = n"
    by (simp add: SetRedirectCounter_def)
  moreover have "step (Redirect newUrl) s = finish errRedirectLimit s \<and>
      step (LocalRedirect newUrl cod) s = finish errRedirectLimit s \<and>
      phase (finish errRedirectLimit s) = Terminal \<and>
      responses (finish errRedirectLimit s) = responses s @ [(errRedirectLimit, hosts s)] \<and>
      hosts (finish errRedirectLimit s) = hosts s \<and>
      hstate (finish errRedirectLimit s) = hstate s"
    if "phase s \<noteq> Terminal \<and> pRedirectCounter (hstate s) = 0"
    using that by (simp add: finish_def)
  moreover have "unat (pRedirectCounter (hstate (step (Redirect newUrl) s))) =
        unat (pRedirectCounter (hstate s)) - 1 \<and>
      unat (pRedirectCounter (hstate (step (Redirect newUrl) s))) <
        unat (pRedirectCounter (hstate s)) \<and>
      phase (step (Redirect newUrl) s) =
        (if pRedirectAsAnswer (hstate s) then Terminal else Redirecting) \<and>
      unat (pRedirectCounter (hstate (step (LocalRedirect newUrl cod) s))) =
        unat (pRedirectCounter (hstate s)) - 1 \<and>
      unat (pRedirectCounter (hstate (step (LocalRedirect newUrl cod) s))) <
        unat (pRedirectCounter (hstate s))"
    if "phase s \<noteq> Terminal \<and> pRedirectCounter (hstate s) \<noteq> 0"
  proof -
    from that have nz: "pRedirectCounter (hstate s) \<noteq> 0" by simp
    have "phase (follow_redirect newUrl s) = Redirecting"
      and "phase (redirect_as_answer s) = Terminal"
      by (simp_all add: follow_redirect_def RetryAtServer_def redirect_as_answer_def
            finish_def Let_def)
    with that unat_pred [OF nz] show ?thesis
      by (simp add: counter_follow_redirect counter_local_redirect
            counter_redirect_as_answer)
  qed
  moreover note counter_fold_le [of es s]
  ultimately show ?thesis by blast
qed

theorem redirect_counter_decreases_witness:
  "phase (sent sample_handler [HostInfo_ctor origin False]) \<noteq> Terminal \<and>
   pRedirectCounter (hstate (sent sample_handler [HostInfo_ctor origin False])) \<noteq> 0 \<and>
   unat (pRedirectCounter (hstate (step (Redirect host2)
           (sent sample_handler [HostInfo_ctor origin False])))) = 2 \<and>
   phase (sent (SetRedirectCounter 0 sample_handler) [HostInfo_ctor origin False]) \<noteq> Terminal \<and>
   pRedirectCounter (hstate (sent (SetRedirectCounter 0 sample_handler)
                               [HostInfo_ctor origin False])) = 0 \<and>
   responses (step (Redirect host2)
                (sent (SetRedirectCounter 0 sample_handler) [HostInfo_ctor origin False])) =
     [(errRedirectLimit, [HostInfo_ctor origin False])]"
proof -
  let ?s = "sent sample_handler [HostInfo_ctor origin False]"
  let ?z = "sent (SetRedirectCounter 0 sample_handler) [HostInfo_ctor origin False]"
  have p: "phase ?s \<noteq> Terminal" "phase ?z \<noteq> Terminal" by (simp_all add: sent_def)
  have c: "pRedirectCounter (hstate ?s) = 3" "pRedirectCounter (hstate ?z) = 0"
    by (simp_all add: sent_def sample_handler_def SetRedirectCounter_def)
  have r: "responses ?z = []" "hosts ?z = [HostInfo_ctor origin False]"
    by (simp_all add: sent_def)
  from redirect_counter_decreases [of _ _ ?s host2 _ "[]"] p c
  have 1: "unat (pRedirectCounter (hstate (step (Redirect host2) ?s))) = 2" by simp
  from redirect_counter_decreases [of _ _ ?z host2 _ "[]"] p c r
  have 2: "responses (step (Redirect host2) ?z) = [(errRedirectLimit, [HostInfo_ctor origin False])]"
    by simp
  from p c 1 2 show ?thesis by simp
qed

subsection \<open>The host list\<close>














end
